theory Spec2Isabelle
  imports Main "HOL-Library.Sublist"
begin

section \<open>JavaScript values read from the profile document\<close>

text \<open>
  \<^verbatim>\<open>isProfileComplete(u: any)\<close> reads its argument with JavaScript truthiness, so the
  fields of the profile document are modelled as JavaScript values. \<open>JObj\<close> stands for
  any object or array (always truthy), \<open>JNum\<close> for a number with an integer value.
\<close>

datatype jsval = Undefined | Null | JBool bool | JNum int | JNaN | JStr string | JObj

fun truthy :: "jsval \<Rightarrow> bool" where
  "truthy Undefined = False"
| "truthy Null = False"
| "truthy (JBool b) = b"
| "truthy (JNum n) = (n \<noteq> 0)"
| "truthy JNaN = False"
| "truthy (JStr s) = (s \<noteq> [])"
| "truthy JObj = True"

text \<open>\<^verbatim>\<open>a && b\<close>: the left operand when it is falsy, the right one otherwise.\<close>

definition js_and :: "jsval \<Rightarrow> jsval \<Rightarrow> jsval" where
  "js_and a b = (if truthy a then b else a)"

text \<open>\<^verbatim>\<open>v === true\<close>\<close>

definition strict_eq_true :: "jsval \<Rightarrow> jsval" where
  "strict_eq_true v = JBool (v = JBool True)"

text \<open>
  The document \<^verbatim>\<open>users/{uid}\<close>. The fields read through \<^verbatim>\<open>any\<close> are JavaScript
  values; \<open>onboarded\<close> and \<open>onboardingStep\<close> are typed as in the interface
  \<^verbatim>\<open>UserProfile\<close> (boolean, number), \<open>None\<close> when the field is absent or null.
\<close>

record userProfile =
  displayName :: jsval
  age :: jsval
  gender :: jsval
  height :: jsval
  weight :: jsval
  goals :: jsval
  activityPreference :: jsval
  daysPerWeek :: jsval
  injuries :: jsval
  foodDislikes :: jsval
  profileCompleted :: jsval
  welcomed :: jsval
  onboarded :: "bool option"
  onboardingStep :: "int option"

text \<open>\<^verbatim>\<open>u?.field\<close> on a document that may be null or undefined.\<close>

definition opt_chain :: "userProfile option \<Rightarrow> (userProfile \<Rightarrow> jsval) \<Rightarrow> jsval" where
  "opt_chain u f = (case u of None \<Rightarrow> Undefined | Some r \<Rightarrow> f r)"

section \<open>Profile completeness (lib/profile, src/unnamed/part_017)\<close>

text \<open>
  \<^verbatim>\<open>
  return Boolean(
    u?.displayName && u?.age && u?.gender && u?.height && u?.weight && u?.goals &&
    u?.activityPreference && u?.daysPerWeek && u?.injuries && u?.foodDislikes &&
    u?.profileCompleted === true)
  \<close>
  The chain of \<^verbatim>\<open>&&\<close> associates to the left, as \<open>foldl\<close> does.
\<close>

definition isProfileComplete :: "userProfile option \<Rightarrow> bool" where
  "isProfileComplete u =
     truthy (foldl js_and (opt_chain u displayName)
       [opt_chain u age, opt_chain u gender, opt_chain u height, opt_chain u weight,
        opt_chain u goals, opt_chain u activityPreference, opt_chain u daysPerWeek,
        opt_chain u injuries, opt_chain u foodDislikes,
        strict_eq_true (opt_chain u profileCompleted)])"

text \<open>A field is empty or null: undefined, null or the empty string.\<close>

definition emptyOrNull :: "jsval \<Rightarrow> bool" where
  "emptyOrNull v = (v = Undefined \<or> v = Null \<or> v = JStr [])"

definition requiredFields :: "(userProfile \<Rightarrow> jsval) list" where
  "requiredFields = [displayName, age, gender, height, weight, goals, activityPreference,
     daysPerWeek, injuries, foodDislikes]"

definition sampleProfile :: userProfile where
  "sampleProfile = \<lparr> displayName = JStr ''Ana'', age = JNum 30, gender = JStr ''female'',
     height = JObj, weight = JObj, goals = JStr ''energy'', activityPreference = JStr ''gym'',
     daysPerWeek = JStr ''3'', injuries = JStr ''none'', foodDislikes = JStr ''olives'',
     profileCompleted = JBool True, welcomed = JBool True, onboarded = Some False,
     onboardingStep = Some 0 \<rparr>"


section \<open>Session flags (providers/AuthProvider, src/unnamed/part_015)\<close>

text \<open>
  The state of \<^verbatim>\<open>AuthProvider\<close>: \<open>a_user\<close> is the uid of the identity (\<open>None\<close>
  when \<^verbatim>\<open>user\<close> is null), \<open>a_seededFor\<close> is the ref \<^verbatim>\<open>seededFor.current\<close>, and
  \<open>a_listening\<close> says that the listener on the profile document is attached.
\<close>

record authState =
  a_user :: "string option"
  a_authReady :: bool
  a_profileLoaded :: bool
  a_mustShowWelcome :: bool
  a_needsProfile :: bool
  a_seededFor :: "string option"
  a_listening :: bool

text \<open>The provider as it is created, with what the ref holds from earlier in the session.\<close>

definition initialAuth :: "string option \<Rightarrow> authState" where
  "initialAuth seeded =
     \<lparr> a_user = None, a_authReady = False, a_profileLoaded = False,
       a_mustShowWelcome = False, a_needsProfile = False, a_seededFor = seeded,
       a_listening = False \<rparr>"

text \<open>\<^verbatim>\<open>onAuthChange((u) => { setUser(u ?? null); setAuthReady(true) })\<close>\<close>

definition onAuthChange :: "string option \<Rightarrow> authState \<Rightarrow> authState" where
  "onAuthChange u st = st\<lparr> a_user := u, a_authReady := True \<rparr>"

text \<open>
  The effect on \<^verbatim>\<open>user?.uid\<close> (the cleanup of its last run has detached the listener):
  \<^verbatim>\<open>
  setProfileLoaded(false); setMustShowWelcome(false); setNeedsProfile(false)
  if (!user?.uid) return
  if (seededFor.current === user.uid) return       // only once per uid per session
  seededFor.current = user.uid
  ...
  return listenToDocument("users", user.uid, (userData) => { ... })
  \<close>
\<close>

definition onUserChange :: "authState \<Rightarrow> authState" where
  "onUserChange st =
     (let st1 = st\<lparr> a_profileLoaded := False, a_mustShowWelcome := False,
                     a_needsProfile := False, a_listening := False \<rparr>
      in case a_user st of
           None \<Rightarrow> st1
         | Some uid \<Rightarrow>
             if uid = [] then st1
             else if a_seededFor st = Some uid then st1
             else st1\<lparr> a_seededFor := Some uid, a_listening := True \<rparr>)"

text \<open>\<^verbatim>\<open>userData || {}\<close>: a missing document reads as one with no field.\<close>

definition noFields :: userProfile where
  "noFields = \<lparr> displayName = Undefined, age = Undefined, gender = Undefined,
     height = Undefined, weight = Undefined, goals = Undefined,
     activityPreference = Undefined, daysPerWeek = Undefined, injuries = Undefined,
     foodDislikes = Undefined, profileCompleted = Undefined, welcomed = Undefined,
     onboarded = None, onboardingStep = None \<rparr>"

definition orNoFields :: "userProfile option \<Rightarrow> userProfile" where
  "orNoFields userData = (case userData of None \<Rightarrow> noFields | Some r \<Rightarrow> r)"

text \<open>
  The callback of the listener on \<^verbatim>\<open>users/{uid}\<close>, which runs only while the
  listener is attached:
  \<^verbatim>\<open>
  const u = userData || {}
  setMustShowWelcome(u?.welcomed !== true)
  setNeedsProfile(!isProfileComplete(u))
  setProfileLoaded(true)
  \<close>
\<close>

definition onUserDocument :: "userProfile option \<Rightarrow> authState \<Rightarrow> authState" where
  "onUserDocument userData st =
     (if a_listening st
      then
        let u = orNoFields userData in
        st\<lparr> a_mustShowWelcome := (welcomed u \<noteq> JBool True),
            a_needsProfile := (\<not> isProfileComplete (Some u)),
            a_profileLoaded := True \<rparr>
      else st)"

text \<open>What \<^verbatim>\<open>useAuth()\<close> hands to its consumers.\<close>

record authCtx =
  user :: bool
  loading :: bool
  mustShowWelcome :: bool
  needsProfile :: bool

definition useAuth :: "authState \<Rightarrow> authCtx" where
  "useAuth st =
     \<lparr> user = (a_user st \<noteq> None),
       loading = (\<not> a_authReady st \<or> (a_user st \<noteq> None \<and> \<not> a_profileLoaded st)),
       mustShowWelcome = a_mustShowWelcome st,
       needsProfile = a_needsProfile st \<rparr>"

text \<open>
  The derived session state, for the identity and the profile record that have arrived
  and for what \<^verbatim>\<open>seededFor\<close> held before. The first three fields are the ones the
  hook \<^verbatim>\<open>useAuthGuard\<close> of middleware/AuthMiddleware computes:
  \<^verbatim>\<open>
  const isAuthenticated = !!user && !loading
  const isProfileComplete = !needsProfile
  const hasCompletedWelcome = !mustShowWelcome
  \<close>
  The last two are the chat screen's: its state starts at \<^verbatim>\<open>useState(0)\<close> and
  \<^verbatim>\<open>useState(false)\<close>, its effect returns at once without a uid, and otherwise sets
  \<^verbatim>\<open>p?.onboardingStep ?? 0\<close> and \<^verbatim>\<open>p?.onboarded ?? false\<close>.
\<close>

record sessionState =
  authenticated :: bool
  ss_welcomed :: bool
  profileComplete :: bool
  ss_onboardingStep :: int
  ss_onboarded :: bool

definition stepOrZero :: "userProfile option \<Rightarrow> int" where
  "stepOrZero p =
     (case p of None \<Rightarrow> 0
      | Some r \<Rightarrow> (case onboardingStep r of None \<Rightarrow> 0 | Some k \<Rightarrow> k))"

definition onboardedOrFalse :: "userProfile option \<Rightarrow> bool" where
  "onboardedOrFalse p =
     (case p of None \<Rightarrow> False
      | Some r \<Rightarrow> (case onboarded r of None \<Rightarrow> False | Some b \<Rightarrow> b))"

definition hasUid :: "string option \<Rightarrow> bool" where
  "hasUid identity = (case identity of None \<Rightarrow> False | Some uid \<Rightarrow> uid \<noteq> [])"

definition derive :: "string option \<Rightarrow> userProfile option \<Rightarrow> string option \<Rightarrow> sessionState" where
  "derive seeded profileRecord identity =
     (let st = onUserDocument profileRecord
                 (onUserChange (onAuthChange identity (initialAuth seeded)));
          ctx = useAuth st
      in \<lparr> authenticated = (user ctx \<and> \<not> loading ctx),
           ss_welcomed = (\<not> mustShowWelcome ctx),
           profileComplete = (\<not> needsProfile ctx),
           ss_onboardingStep = (if hasUid identity then stepOrZero profileRecord else 0),
           ss_onboarded = (if hasUid identity then onboardedOrFalse profileRecord
                           else False) \<rparr>)"

section \<open>The access gate (middleware/AuthMiddleware)\<close>

text \<open>
  \<^verbatim>\<open>pathname.startsWith(route)\<close> is \<open>prefix route pathname\<close>;
  \<^verbatim>\<open>pathname.includes(part)\<close> is a search for a contiguous occurrence.
\<close>

fun includes_str :: "string \<Rightarrow> string \<Rightarrow> bool" where
  "includes_str [] part = (part = [])"
| "includes_str (c # cs) part = (prefix part (c # cs) \<or> includes_str cs part)"

definition publicRoutes :: "string list" where
  "publicRoutes = [''/(auth)/signin'', ''/(auth)/signup'', ''/signin'', ''/signup'', ''/'',
     ''/welcome'']"

definition profileRoutes :: "string list" where
  "profileRoutes = [''/(screens)/profile'', ''/profile'', ''/(screens)/setup'', ''/setup'']"

definition authRoutes :: "string list" where
  "authRoutes = [''/(auth)/signin'', ''/(auth)/signup'', ''/signin'', ''/signup'']"

text \<open>\<^verbatim>\<open>routes.some(route => pathname === route || pathname.startsWith(route))\<close>\<close>

definition matchesRoute :: "string list \<Rightarrow> string \<Rightarrow> bool" where
  "matchesRoute routes pathname =
     list_ex (\<lambda>route. pathname = route \<or> prefix route pathname) routes"

definition isPublicRoute :: "string \<Rightarrow> bool" where
  "isPublicRoute pathname = matchesRoute publicRoutes pathname"

definition isProfileRoute :: "string \<Rightarrow> bool" where
  "isProfileRoute pathname = matchesRoute profileRoutes pathname"

definition isAuthRoute :: "string \<Rightarrow> bool" where
  "isAuthRoute pathname = matchesRoute authRoutes pathname"

text \<open>
  What the component does on one render: the loading fallback, a
  \<^verbatim>\<open>router.replace\<close> (with or without the profile alert before it), or the
  children.
\<close>

datatype decision = Fallback | RedirectTo string | AlertThenRedirectTo string | Children

definition AuthMiddleware :: "bool \<Rightarrow> bool \<Rightarrow> authCtx \<Rightarrow> string \<Rightarrow> decision" where
  "AuthMiddleware requireAuth requireProfile ctx pathname =
     (if loading ctx then Fallback
      else if requireAuth \<and> \<not> user ctx then
        (if \<not> isPublicRoute pathname then RedirectTo ''/signin'' else Children)
      else if user ctx then
        (if isAuthRoute pathname \<and> \<not> mustShowWelcome ctx \<and> \<not> needsProfile ctx
           then RedirectTo ''/(tabs)/chat''
         else if mustShowWelcome ctx \<and> \<not> includes_str pathname ''/welcome'' \<and>
                 \<not> isProfileRoute pathname
           then RedirectTo ''/welcome''
         else if requireProfile \<and> needsProfile ctx \<and> \<not> isProfileRoute pathname \<and>
                 \<not> includes_str pathname ''/welcome''
           then (if \<not> includes_str pathname ''/profile'' then AlertThenRedirectTo ''/profile''
                 else RedirectTo ''/profile'')
         else Children)
      else Children)"

text \<open>
  The guard of the root layout (app/_layout.tsx), which every screen is rendered under:
  \<^verbatim>\<open>
  if (loading) return
  const inAuth = pathname.startsWith("/(auth)") || pathname.includes("/signin")
              || pathname.includes("/signup")
  const inWelcome = pathname.includes("/welcome") || pathname === ""
  const inProfile = pathname.includes("/profile")
  if (!user) { if (!inAuth) router.replace("/signin"); return }
  if (mustShowWelcome && !(inWelcome || inProfile)) { router.replace("/welcome"); return }
  if (!mustShowWelcome && needsProfile && !(inProfile || inWelcome)) {
    router.replace("/profile"); return }
  if (!mustShowWelcome && !needsProfile && inAuth) router.replace("/(tabs)/chat")
  \<close>
\<close>

definition Guard :: "authCtx \<Rightarrow> string \<Rightarrow> decision" where
  "Guard ctx pathname =
     (let inAuth = (prefix ''/(auth)'' pathname \<or> includes_str pathname ''/signin'' \<or>
                    includes_str pathname ''/signup'');
          inWelcome = (includes_str pathname ''/welcome'' \<or> pathname = []);
          inProfile = includes_str pathname ''/profile''
      in if loading ctx then Fallback
         else if \<not> user ctx then (if \<not> inAuth then RedirectTo ''/signin'' else Children)
         else if mustShowWelcome ctx \<and> \<not> (inWelcome \<or> inProfile) then RedirectTo ''/welcome''
         else if \<not> mustShowWelcome ctx \<and> needsProfile ctx \<and> \<not> (inProfile \<or> inWelcome)
           then RedirectTo ''/profile''
         else if \<not> mustShowWelcome ctx \<and> \<not> needsProfile ctx \<and> inAuth
           then RedirectTo ''/(tabs)/chat''
         else Children)"

text \<open>The session of a visitor with no identity, once the auth state is known.\<close>

definition signedOut :: authCtx where
  "signedOut = useAuth (onUserChange (onAuthChange None (initialAuth None)))"

section \<open>Streaks (lib/firebaseHelpers, src/unnamed/part_021)\<close>

text \<open>
  A completion date \<^verbatim>\<open>YYYY-MM-DD\<close> is modelled by its day number, the count of days
  since 1970-01-01: for such strings the order of \<^verbatim>\<open>Array.prototype.sort\<close> is the
  order of the days, and \<^verbatim>\<open>new Date(s).getTime()\<close> is midnight UTC of that day in
  milliseconds.
\<close>

definition getTime :: "int \<Rightarrow> int" where
  "getTime d = d * (1000 * 60 * 60 * 24)"

definition daysDiff :: "int \<Rightarrow> int \<Rightarrow> int" where
  "daysDiff currentDate previousDate =
     (getTime currentDate - getTime previousDate) div (1000 * 60 * 60 * 24)"

text \<open>
  \<^verbatim>\<open>
  for (let i = sortedDates.length - 2; i >= 0; i--) {
    ... sortedDates[i + 1] ... sortedDates[i] ...
    if (daysDiff === 1) streak++; else break;
  }
  \<close>
  The second argument is \<open>i + 1\<close>; the loop ends when it reaches 0.
\<close>

fun streakLoop :: "int list \<Rightarrow> nat \<Rightarrow> nat \<Rightarrow> nat" where
  "streakLoop sortedDates 0 streak = streak"
| "streakLoop sortedDates (Suc i) streak =
     (if daysDiff (sortedDates ! Suc i) (sortedDates ! i) = 1
      then streakLoop sortedDates i (streak + 1) else streak)"

definition calculateStreak :: "int list \<Rightarrow> nat" where
  "calculateStreak completedDates =
     (if length completedDates = 0 then 0
      else let sortedDates = sort completedDates
           in streakLoop sortedDates (length sortedDates - 1) 1)"

text \<open>
  The function of the same name in the habit detail screen (app/utils/stringUtils.ts),
  which takes the logs of one habit and reads the clock: \<open>today\<close> is the day number of
  \<^verbatim>\<open>new Date().toISOString().split('T')[0]\<close>, and yesterday
  (\<^verbatim>\<open>setDate(getDate() - 1)\<close>) is taken as the day before it.
  \<^verbatim>\<open>
  const sortedDates = logs.map(log => log.date).sort((a, b) => b.localeCompare(a));
  if (sortedDates[0] === today) currentStreak = 1
  else if (sortedDates[0] === yesterdayStr) currentStreak = 1
  else { setStreak(0); return }
  for (let i = 1; i < sortedDates.length; i++) {
    ... sortedDates[i - 1] ... sortedDates[i] ...
    if (daysDiff === 1) currentStreak++; else break;
  }
  \<close>
\<close>

fun countConsecutive :: "int list \<Rightarrow> nat \<Rightarrow> nat" where
  "countConsecutive (currentDate # previousDate # rest) currentStreak =
     (if daysDiff currentDate previousDate = 1
      then countConsecutive (previousDate # rest) (currentStreak + 1) else currentStreak)"
| "countConsecutive sortedDates currentStreak = currentStreak"

definition calculateStreakOfLogs :: "int \<Rightarrow> int list \<Rightarrow> nat" where
  "calculateStreakOfLogs today logDates =
     (if logDates = [] then 0
      else let sortedDates = rev (sort logDates)
           in if hd sortedDates = today \<or> hd sortedDates = today - 1
              then countConsecutive sortedDates 1 else 0)"

section \<open>The onboarding question table (chat/onboardingQuestions)\<close>

text \<open>
  A JavaScript string is the list of its UTF-16 code units. \<open>ascii\<close> turns a literal
  of ASCII characters into such a string.
\<close>

type_synonym jsstring = "nat list"

definition ascii :: "string \<Rightarrow> jsstring" where
  "ascii s = map of_char s"

record onboardingQuestion =
  q_step :: int
  question :: jsstring
  shortQuestion :: jsstring
  answerRequired :: bool

definition question0 :: jsstring where
  "question0 = ascii ''In your own words, what's the #1 feeling or achievement you're chasing? (e.g., 'boundless energy to play with my kids,' 'unstoppable confidence').''"

definition question1 :: jsstring where
  "question1 = ascii ''Powerful. We'll use that as your anchor. Now, on a scale of 1-10, how confident are you about sticking to a new routine? And what's the single biggest thing that you think might get in your way?''"

definition question2 :: jsstring where
  "question2 = ascii ''Thanks for that honesty. Now, for your nutrition: what does a real, satisfying 'treat' or favourite meal look like for you? I believe in a plan that includes your real life.''"

definition question3 :: jsstring where
  "question3 = ascii ''Love it. My goal is to make your nutrition sustainable, not restrictive. Finally, what does a 'win' look like for you at the end of a successful day? Is it ticking off all your habits, having more energy, or something else?''"

text \<open>
  The last prompt holds three characters outside ASCII after "plan now": U+00E2, U+20AC
  and U+201D, written here as code units.
\<close>

definition question4 :: jsstring where
  "question4 = ascii ''Perfect. I now have a deep understanding of you, both your goals and your motivation. I'm creating your fully personalized plan now'' @ [0xE2, 0x20AC, 0x201D] @ ascii ''check the Plan tab for it in a moment! Remember, you can chat with me here anytime for advice. Let's begin!''"

definition onboardingQuestions :: "onboardingQuestion list" where
  "onboardingQuestions =
     [\<lparr> q_step = 0, question = question0,
        shortQuestion = ascii ''feeling or achievement you're chasing?'',
        answerRequired = True \<rparr>,
      \<lparr> q_step = 1, question = question1,
        shortQuestion = ascii ''confidence level and main obstacle?'', answerRequired = True \<rparr>,
      \<lparr> q_step = 2, question = question2,
        shortQuestion = ascii ''real, satisfying 'treat' or favourite meal?'',
        answerRequired = True \<rparr>,
      \<lparr> q_step = 3, question = question3,
        shortQuestion =
          ascii ''what does a 'win' look like for you at the end of a successful day?'',
        answerRequired = True \<rparr>,
      \<lparr> q_step = 4, question = question4, shortQuestion = [], answerRequired = True \<rparr>]"

definition TOTAL_ONBOARDING_STEPS :: int where
  "TOTAL_ONBOARDING_STEPS = int (length onboardingQuestions)"

section \<open>The stores and the world around the engine\<close>

datatype chatRole = Assistant | User | System | Event

text \<open>What a handler can throw.\<close>

datatype error = StoreError | TypeError | ServiceError | PlanParseError

text \<open>
  The \<^verbatim>\<open>meta\<close> bag of a message, with the keys this code writes:
  \<^verbatim>\<open>onboardingStep\<close> (absent, or a number), \<^verbatim>\<open>answerRequired\<close>,
  \<^verbatim>\<open>onboardingCompleted\<close> and \<^verbatim>\<open>error\<close>. The last one is the string
  \<^verbatim>\<open>String(e?.message ?? e)\<close> of an error; the model keeps the error it is made from.
\<close>

record chatMeta =
  m_onboardingStep :: "int option"
  m_answerRequired :: "bool option"
  m_onboardingCompleted :: bool
  m_error :: "error option"

definition noMeta :: chatMeta where
  "noMeta = \<lparr> m_onboardingStep = None, m_answerRequired = None,
     m_onboardingCompleted = False, m_error = None \<rparr>"

text \<open>A message; \<open>msg_meta\<close> is \<open>None\<close> for a document written without \<^verbatim>\<open>meta\<close>.\<close>

record chatMessage =
  msg_role :: chatRole
  msg_text :: jsstring
  msg_meta :: "chatMeta option"

text \<open>A callback waiting in \<^verbatim>\<open>setTimeout\<close>.\<close>

datatype task = ProgressTask int | SendNextTask int

text \<open>An \<^verbatim>\<open>updateDoc\<close> that the profile store has applied.\<close>

datatype profileWrite = StepWrite int | CompletionWrite

record userPlan =
  mealPlan :: string
  workoutPlan :: string

text \<open>
  The world outside the chat screen: the document \<^verbatim>\<open>users/{uid}\<close> and the writes
  applied to it, the collection \<^verbatim>\<open>chatMessages\<close> in the order of
  \<^verbatim>\<open>createdAt\<close>, the pending timers, the calls of \<^verbatim>\<open>createPlan\<close> that
  were made (message and core motivation), and the collection \<^verbatim>\<open>plans\<close>.
\<close>

record world =
  profile :: userProfile
  profileWrites :: "profileWrite list"
  chatMessages :: "chatMessage list"
  timers :: "task list"
  planRequests :: "(jsstring \<times> jsstring) list"
  plans :: "userPlan list"

text \<open>
  What \<^verbatim>\<open>createPlan\<close> gives back: it throws, or its reply does not parse as JSON, or
  the reply parses and carries the two plans.
\<close>

datatype planReply = ReplyFails | ReplyUnparsable | ReplyPlan string string

text \<open>
  The outcome of every call that leaves the program, one field for each call site of a
  handler: \<open>True\<close> when the call resolves, \<open>False\<close> when it throws.
\<close>

record io =
  userMessageOk :: bool
  progressWriteOk :: bool
  progressReadOk :: bool
  completeWriteOk :: bool
  questionOk :: bool
  planReplyOf :: planReply
  savePlanOk :: bool
  completionMessageOk :: bool
  planReadOk :: bool
  healthy :: bool
  aiReply :: "jsstring option"
  aiMessageOk :: bool
  aiFallbackOk :: bool
  snagMessageOk :: bool

definition allOk :: io where
  "allOk = \<lparr> userMessageOk = True, progressWriteOk = True, progressReadOk = True,
     completeWriteOk = True, questionOk = True, planReplyOf = ReplyPlan ''meals'' ''workouts'',
     savePlanOk = True, completionMessageOk = True, planReadOk = True, healthy = True,
     aiReply = Some (ascii ''ok''), aiMessageOk = True, aiFallbackOk = True, snagMessageOk = True \<rparr>"

section \<open>Messages (chat/data, src/unnamed/part_001)\<close>

text \<open>
  \<^verbatim>\<open>sendMessage\<close> adds one document or rethrows the store's error. A handler
  returns the error it threw, if any, with the world it left behind.
\<close>

definition sendMessage ::
  "bool \<Rightarrow> world \<Rightarrow> chatRole \<Rightarrow> jsstring \<Rightarrow> chatMeta \<Rightarrow> error option \<times> world" where
  "sendMessage ok w r t m =
     (if ok
      then (None, w\<lparr> chatMessages := chatMessages w @
                       [\<lparr> msg_role = r, msg_text = t, msg_meta = Some m \<rparr>] \<rparr>)
      else (Some StoreError, w))"

definition sendAura :: "bool \<Rightarrow> world \<Rightarrow> jsstring \<Rightarrow> chatMeta \<Rightarrow> error option \<times> world" where
  "sendAura ok w t m = sendMessage ok w Assistant t m"

definition sendUserMessage ::
  "bool \<Rightarrow> world \<Rightarrow> jsstring \<Rightarrow> chatMeta \<Rightarrow> error option \<times> world" where
  "sendUserMessage ok w t m = sendMessage ok w User t m"

section \<open>The onboarding flow (chat/onboardingFlow)\<close>

text \<open>
  \<^verbatim>\<open>messages.some((m) => m.role === "assistant" && m.meta?.onboardingStep === currentStep)\<close>
\<close>

definition hasQuestionBeenSent :: "chatMessage list \<Rightarrow> int \<Rightarrow> bool" where
  "hasQuestionBeenSent messages currentStep =
     list_ex (\<lambda>m. msg_role m = Assistant \<and>
                  (case msg_meta m of None \<Rightarrow> False
                   | Some mt \<Rightarrow> m_onboardingStep mt = Some currentStep)) messages"

definition completeOnboarding :: "io \<Rightarrow> world \<Rightarrow> error option \<times> world" where
  "completeOnboarding e w =
     (if completeWriteOk e
      then (None, w\<lparr> profile := (profile w)\<lparr> onboarded := Some True,
                         onboardingStep := Some TOTAL_ONBOARDING_STEPS \<rparr>,
                      profileWrites := profileWrites w @ [CompletionWrite] \<rparr>)
      else (Some StoreError, w))"

text \<open>
  \<^verbatim>\<open>
  const nextStep = currentStep + 1
  try {
    await updateDoc(userRef, { onboardingStep: nextStep, ... })
    const updatedDoc = await getDoc(userRef)
    setTimeout(() => { sendNextOnboardingQuestion(uid, nextStep).catch(console.error) }, 1500)
  } catch (err) { throw err }
  \<close>
\<close>

definition progressOnboardingStep :: "io \<Rightarrow> world \<Rightarrow> int \<Rightarrow> error option \<times> world" where
  "progressOnboardingStep e w currentStep =
     (let nextStep = currentStep + 1 in
      if \<not> progressWriteOk e then (Some StoreError, w)
      else
        let w1 = w\<lparr> profile := (profile w)\<lparr> onboardingStep := Some nextStep \<rparr>,
                    profileWrites := profileWrites w @ [StepWrite nextStep] \<rparr>
        in if \<not> progressReadOk e then (Some StoreError, w1)
           else (None, w1\<lparr> timers := timers w1 @ [SendNextTask nextStep] \<rparr>))"

text \<open>
  \<open>existingMessages\<close> is \<open>None\<close> when the caller leaves the third argument out; the
  parameter then takes its default, the empty array.
\<close>

definition sendNextOnboardingQuestion ::
  "io \<Rightarrow> world \<Rightarrow> int \<Rightarrow> chatMessage list option \<Rightarrow> error option \<times> world" where
  "sendNextOnboardingQuestion e w currentStep existingMessages =
     (let existing = (case existingMessages of None \<Rightarrow> [] | Some ms \<Rightarrow> ms) in
      if currentStep \<ge> TOTAL_ONBOARDING_STEPS then completeOnboarding e w
      else
        let availableQuestions = filter (\<lambda>q. q_step q \<ge> currentStep) onboardingQuestions in
        if length availableQuestions = 0 then (None, w)
        else
          (case find (\<lambda>q. q_step q = currentStep) availableQuestions of
             None \<Rightarrow> (None, w)
           | Some questionData \<Rightarrow>
               if hasQuestionBeenSent existing currentStep then (None, w)
               else
                 (case sendAura (questionOk e) w (question questionData)
                         (noMeta\<lparr> m_onboardingStep := Some currentStep,
                                  m_answerRequired := Some (answerRequired questionData) \<rparr>) of
                    (Some err, w1) \<Rightarrow> (Some err, w1)
                  | (None, w1) \<Rightarrow>
                      if \<not> answerRequired questionData
                      then (None, w1\<lparr> timers := timers w1 @ [ProgressTask currentStep] \<rparr>)
                      else (None, w1))))"

text \<open>\<^verbatim>\<open>questionData?.answerRequired || false\<close>\<close>

definition doesCurrentStepRequireAnswer :: "int \<Rightarrow> bool" where
  "doesCurrentStepRequireAnswer step =
     (case find (\<lambda>q. q_step q = step) onboardingQuestions of
        None \<Rightarrow> False
      | Some questionData \<Rightarrow> answerRequired questionData)"

section \<open>The chat screen (src/unnamed/part_003)\<close>

text \<open>
  The React state of \<^verbatim>\<open>ChatScreenContent\<close> that its handlers read and set, with
  the route last given to \<^verbatim>\<open>router.replace\<close>. \<open>s_onboardingStep\<close> is \<open>None\<close>
  when the state holds no number (\<^verbatim>\<open>undefined\<close>, or the \<^verbatim>\<open>NaN\<close> that
  \<^verbatim>\<open>undefined + 1\<close> gives; both take the same branches below). \<open>s_uid\<close> says
  that \<^verbatim>\<open>user?.uid\<close> is set.
\<close>

record screen =
  s_uid :: bool
  s_onboardingStep :: "int option"
  s_onboarded :: bool
  s_messages :: "chatMessage list"
  s_profile :: "userProfile option"
  s_busy :: bool
  s_loading :: bool
  s_route :: string

text \<open>The state of the first render: \<^verbatim>\<open>useState(0)\<close>, \<^verbatim>\<open>useState(false)\<close>, ...\<close>

definition firstRender :: screen where
  "firstRender = \<lparr> s_uid = True, s_onboardingStep = Some 0, s_onboarded = False,
     s_messages = [], s_profile = None, s_busy = False, s_loading = False,
     s_route = ''/(tabs)/chat'' \<rparr>"

text \<open>
  \<^verbatim>\<open>String.prototype.trim\<close> removes white space and line terminators from both ends:
  TAB, LF, VT, FF, CR, SP, NBSP, U+1680, U+2000 to U+200A, U+2028, U+2029, U+202F, U+205F,
  U+3000 and U+FEFF.
\<close>

definition isWhiteSpace :: "nat \<Rightarrow> bool" where
  "isWhiteSpace c =
     (c \<in> set [0x09, 0x0A, 0x0B, 0x0C, 0x0D, 0x20, 0xA0, 0x1680, 0x2028, 0x2029, 0x202F,
                0x205F, 0x3000, 0xFEFF] \<or>
      (0x2000 \<le> c \<and> c \<le> 0x200A))"

definition trim :: "jsstring \<Rightarrow> jsstring" where
  "trim s = rev (dropWhile isWhiteSpace (rev (dropWhile isWhiteSpace s)))"

fun join :: "jsstring \<Rightarrow> jsstring list \<Rightarrow> jsstring" where
  "join sep [] = []"
| "join sep [x] = x"
| "join sep (x # y # ys) = x @ sep @ join sep (y # ys)"

text \<open>\<^verbatim>\<open>onboardingQuestions[i]\<close>: \<^verbatim>\<open>undefined\<close> outside the table.\<close>

definition questionAt :: "int \<Rightarrow> onboardingQuestion option" where
  "questionAt i =
     (if 0 \<le> i \<and> i < int (length onboardingQuestions)
      then Some (onboardingQuestions ! nat i) else None)"

text \<open>
  \<^verbatim>\<open>onboardingQuestions[m.meta.onboardingStep].shortQuestion + m.text\<close>, which throws a
  TypeError when the message has no \<^verbatim>\<open>meta\<close> or its step names no question.
\<close>

definition planLine :: "chatMessage \<Rightarrow> jsstring option" where
  "planLine m =
     (case msg_meta m of None \<Rightarrow> None
      | Some mt \<Rightarrow>
          (case m_onboardingStep mt of None \<Rightarrow> None
           | Some i \<Rightarrow>
               (case questionAt i of None \<Rightarrow> None
                | Some q \<Rightarrow> Some (shortQuestion q @ msg_text m))))"

definition planText :: "chatMessage list \<Rightarrow> jsstring option" where
  "planText messages =
     map_option (join [0x0A])
       (those (map planLine (filter (\<lambda>msg. msg_role msg = User) messages)))"

definition coreMotivationOf :: "chatMessage list \<Rightarrow> jsstring" where
  "coreMotivationOf messages =
     join [0x0A]
       (map msg_text
          (filter (\<lambda>msg. msg_role msg = User \<and>
                     (case msg_meta msg of None \<Rightarrow> False
                      | Some mt \<Rightarrow> m_onboardingStep mt = Some 0)) messages))"

text \<open>The message opens with U+1F389, two code units.\<close>

definition congratulations :: jsstring where
  "congratulations = [0xD83C, 0xDF89] @ ascii '' Congratulations! Your onboarding is complete. I now have everything I need to create your personalized wellness plan. Welcome to your journey with Aura!''"

definition difficulties :: jsstring where
  "difficulties = ascii ''I'm currently experiencing some technical difficulties. Please try again in a moment, or explore the other tabs to see your plan and track your progress!''"

definition beingSetUp :: jsstring where
  "beingSetUp = ascii ''Thanks for your message! I'm currently being set up to provide you with personalized health advice. For now, explore the other tabs to see your plan and track your progress!''"

definition snag :: jsstring where
  "snag = ascii ''Hmm, I hit a snag reaching my brain. Please try again in a moment.''"

text \<open>
  The block of \<^verbatim>\<open>send\<close> under \<^verbatim>\<open>if (onboardingStep == TOTAL_ONBOARDING_STEPS - 2)\<close>:
  \<^verbatim>\<open>
  setLoading(true); setOnboarded(true);
  await completeOnboarding(user.uid);
  const text = messages.filter(...).map(...).join("\n");
  const coreMotivation = ...;
  const plan = await cloudflareApi.createPlan(text, profile, coreMotivation);
  planData = JSON.parse(plan)            // or throw "Failed to parse plan response"
  await saveUserPlan(userPlan);          // rethrows
  setLoading(false);
  await sendAura(user.uid, "... Congratulations! ...", { onboardingCompleted: true });
  const userPlan = await getUserPlan(user.uid);   // null when the read fails
  router.replace(userPlan ? "/(tabs)/meal" : "/(tabs)/workout")
  \<close>
\<close>

definition handOff :: "io \<Rightarrow> screen \<Rightarrow> world \<Rightarrow> error option \<times> screen \<times> world" where
  "handOff e s w =
     (let s1 = s\<lparr> s_loading := True, s_onboarded := True \<rparr> in
      case completeOnboarding e w of
        (Some err, w1) \<Rightarrow> (Some err, s1, w1)
      | (None, w1) \<Rightarrow>
          (case planText (s_messages s) of
             None \<Rightarrow> (Some TypeError, s1, w1)
           | Some t \<Rightarrow>
               let w2 = w1\<lparr> planRequests := planRequests w1 @
                                 [(t, coreMotivationOf (s_messages s))] \<rparr>
               in (case planReplyOf e of
                     ReplyFails \<Rightarrow> (Some ServiceError, s1, w2)
                   | ReplyUnparsable \<Rightarrow> (Some PlanParseError, s1, w2)
                   | ReplyPlan meal workout \<Rightarrow>
                       if \<not> savePlanOk e then (Some StoreError, s1, w2)
                       else
                         let w3 = w2\<lparr> plans := plans w2 @
                                      [\<lparr> mealPlan = meal, workoutPlan = workout \<rparr>] \<rparr>;
                             s2 = s1\<lparr> s_loading := False \<rparr>
                         in (case sendAura (completionMessageOk e) w3 congratulations
                                    (noMeta\<lparr> m_onboardingCompleted := True \<rparr>) of
                               (Some err, w4) \<Rightarrow> (Some err, s2, w4)
                             | (None, w4) \<Rightarrow>
                                 (None,
                                  s2\<lparr> s_route := (if planReadOk e \<and> plans w4 \<noteq> []
                                                   then ''/(tabs)/meal''
                                                   else ''/(tabs)/workout'') \<rparr>,
                                  w4)))))"

text \<open>
  The branch \<^verbatim>\<open>if (!onboarded)\<close>. The handler reads the state of the render it was
  created in (\<open>s\<close>) and the setters prepare the next one.
\<close>

definition onboardingMode :: "io \<Rightarrow> screen \<Rightarrow> world \<Rightarrow> error option \<times> screen \<times> world" where
  "onboardingMode e s w =
     (case (case s_onboardingStep s of
              None \<Rightarrow> (None, w)
            | Some k \<Rightarrow> if doesCurrentStepRequireAnswer k then progressOnboardingStep e w k
                        else (None, w)) of
        (Some err, w1) \<Rightarrow> (Some err, s, w1)
      | (None, w1) \<Rightarrow>
          let s1 = s\<lparr> s_onboardingStep := map_option (\<lambda>k. k + 1) (s_onboardingStep s) \<rparr>
          in if s_onboardingStep s = Some (TOTAL_ONBOARDING_STEPS - 2) then handOff e s1 w1
             else (None, s1, w1))"

text \<open>The branch of the AI chat, with its own \<^verbatim>\<open>try\<close> and \<^verbatim>\<open>catch\<close>.\<close>

definition chatMode :: "io \<Rightarrow> world \<Rightarrow> error option \<times> world" where
  "chatMode e w =
     (case (if healthy e
            then (case aiReply e of
                    None \<Rightarrow> (Some ServiceError, w)
                  | Some reply \<Rightarrow> sendAura (aiMessageOk e) w reply noMeta)
            else sendAura (aiMessageOk e) w difficulties noMeta) of
        (None, w1) \<Rightarrow> (None, w1)
      | (Some err, w1) \<Rightarrow> sendAura (aiFallbackOk e) w1 beingSetUp noMeta)"

text \<open>The body of the outer \<^verbatim>\<open>try\<close>.\<close>

definition sendTry :: "io \<Rightarrow> jsstring \<Rightarrow> screen \<Rightarrow> world \<Rightarrow> error option \<times> screen \<times> world" where
  "sendTry e t s w =
     (case sendUserMessage (userMessageOk e) w t
             (noMeta\<lparr> m_onboardingStep := s_onboardingStep s \<rparr>) of
        (Some err, w1) \<Rightarrow> (Some err, s, w1)
      | (None, w1) \<Rightarrow>
          if \<not> s_onboarded s then onboardingMode e s w1
          else (case chatMode e w1 of (r, w2) \<Rightarrow> (r, s, w2)))"

text \<open>
  \<^verbatim>\<open>send\<close>, with the text of the input field. The outer \<^verbatim>\<open>catch\<close> reports the
  error in a message of its own (an error of that last call leaves the handler), and
  \<^verbatim>\<open>finally\<close> clears \<^verbatim>\<open>loading\<close> and \<^verbatim>\<open>busy\<close>.
\<close>

definition send :: "io \<Rightarrow> jsstring \<Rightarrow> screen \<Rightarrow> world \<Rightarrow> screen \<times> world" where
  "send e input s w =
     (let t = trim input in
      if t = [] \<or> \<not> s_uid s \<or> s_busy s then (s, w)
      else
        (case sendTry e t (s\<lparr> s_busy := True \<rparr>) w of
           (None, s1, w1) \<Rightarrow> (s1\<lparr> s_loading := False, s_busy := False \<rparr>, w1)
         | (Some err, s1, w1) \<Rightarrow>
             (s1\<lparr> s_loading := False, s_busy := False \<rparr>,
              snd (sendAura (snagMessageOk e) w1 snag
                     (noMeta\<lparr> m_error := Some err \<rparr>)))))"

text \<open>
  The callback of \<^verbatim>\<open>onUserMessages\<close>. It is created by an effect with no
  dependencies, so the \<^verbatim>\<open>onboardingStep\<close> and \<^verbatim>\<open>onboarded\<close> it reads are
  those of the first render.
  \<^verbatim>\<open>
  setMessages(items);
  if (onboardingStep !== undefined && !onboarded)
    sendNextOnboardingQuestion(user.uid, onboardingStep, items);
  \<close>
\<close>

definition onMessages :: "io \<Rightarrow> chatMessage list \<Rightarrow> screen \<Rightarrow> world \<Rightarrow> screen \<times> world" where
  "onMessages e items s w =
     (let s1 = s\<lparr> s_messages := items \<rparr> in
      case s_onboardingStep firstRender of
        None \<Rightarrow> (s1, w)
      | Some k \<Rightarrow>
          if \<not> s_onboarded firstRender
          then (s1, snd (sendNextOnboardingQuestion e w k (Some items)))
          else (s1, w))"

text \<open>
  \<^verbatim>\<open>getUserProfile(user.uid).then((p) => { setOnboardingStep(p?.onboardingStep ?? 0);
  setOnboarded(p?.onboarded ?? false); setProfile(p) })\<close>
\<close>

definition onProfile :: "userProfile option \<Rightarrow> screen \<Rightarrow> screen" where
  "onProfile p s =
     s\<lparr> s_onboardingStep := Some (stepOrZero p), s_onboarded := onboardedOrFalse p,
        s_profile := p \<rparr>"

text \<open>
  The timer at position \<open>i\<close> fires. Both callbacks end in
  \<^verbatim>\<open>.catch(console.error)\<close>, so an error stops there.
\<close>

definition fireTimer :: "io \<Rightarrow> nat \<Rightarrow> world \<Rightarrow> world" where
  "fireTimer e i w =
     (if i < length (timers w)
      then
        let w1 = w\<lparr> timers := take i (timers w) @ drop (Suc i) (timers w) \<rparr> in
        (case timers w ! i of
           ProgressTask k \<Rightarrow> snd (progressOnboardingStep e w1 k)
         | SendNextTask k \<Rightarrow> snd (sendNextOnboardingQuestion e w1 k None))
      else w)"

text \<open>
  The events of a chat session. The user sends the text of the input field. The message
  listener delivers a list of messages (the collection, or an older state of it when a
  delivery is repeated). A timer fires. The screen is mounted anew, which puts its state
  back to that of the first render. The profile read of the mount effect resolves and its
  \<^verbatim>\<open>then\<close> applies whatever document arrives: the profile as it is, an older one, or
  null; a read that fails is a mount with no such event after it. The listener and the read
  exist only when the effect found a uid. Each handler runs to its end before the next
  event.
\<close>

datatype event =
  Send io jsstring
| Snapshot io "chatMessage list"
| Timer io nat
| Mount
| ProfileLoaded "userProfile option"

fun step :: "event \<Rightarrow> screen \<times> world \<Rightarrow> screen \<times> world" where
  "step (Send e input) (s, w) = send e input s w"
| "step (Snapshot e items) (s, w) = (if s_uid s then onMessages e items s w else (s, w))"
| "step (Timer e i) (s, w) = (s, fireTimer e i w)"
| "step Mount (s, w) = (firstRender\<lparr> s_uid := s_uid s \<rparr>, w)"
| "step (ProfileLoaded p) (s, w) = (if s_uid s then (onProfile p s, w) else (s, w))"

fun run :: "event list \<Rightarrow> screen \<times> world \<Rightarrow> screen \<times> world" where
  "run [] sw = sw"
| "run (ev # evs) sw = run evs (step ev sw)"


definition isCompletionMessage :: "chatMessage \<Rightarrow> bool" where
  "isCompletionMessage m =
     (case msg_meta m of None \<Rightarrow> False | Some mt \<Rightarrow> m_onboardingCompleted mt)"

definition completions :: "world \<Rightarrow> nat" where
  "completions w = length (filter (\<lambda>u. u = CompletionWrite) (profileWrites w))"

text \<open>A world in which the conversation has not started.\<close>

definition freshWorld :: world where
  "freshWorld = \<lparr> profile = sampleProfile, profileWrites = [], chatMessages = [],
     timers = [], planRequests = [], plans = [] \<rparr>"

section \<open>Properties of the engine, as predicates\<close>

text \<open>The invariant of the profile: \<open>onboarded\<close> implies the last step.\<close>

definition onboardedInvariant :: "userProfile \<Rightarrow> bool" where
  "onboardedInvariant p =
     (onboarded p = Some True \<longrightarrow> onboardingStep p = Some TOTAL_ONBOARDING_STEPS)"

definition completionMessages :: "world \<Rightarrow> nat" where
  "completionMessages w = length (filter isCompletionMessage (chatMessages w))"

text \<open>
  What the hand-off is counted by: the plan requests made, the plans stored, the
  completion messages in the log, and whether the profile says \<open>onboarded\<close>.
\<close>

definition tally :: "world \<Rightarrow> nat \<times> nat \<times> nat \<times> bool" where
  "tally w = (length (planRequests w), length (plans w), completionMessages w,
              onboarded (profile w) = Some True)"

text \<open>
  The invariant behind the hand-off: at most one request, no more plans than requests, no
  more completion messages than plans, and once a request was made both the screen and
  the profile say \<open>onboarded\<close>.
\<close>

definition atMostOnce :: "screen \<times> world \<Rightarrow> bool" where
  "atMostOnce sw =
     (length (planRequests (snd sw)) \<le> 1 \<and>
      length (plans (snd sw)) \<le> length (planRequests (snd sw)) \<and>
      completionMessages (snd sw) \<le> length (plans (snd sw)) \<and>
      (planRequests (snd sw) \<noteq> [] \<longrightarrow>
         s_onboarded (fst sw) \<and> onboarded (profile (snd sw)) = Some True))"

text \<open>
  The same invariant for a screen that may be unread: the flag of such a screen is not
  relied on.
\<close>

definition handOffGuard :: "bool \<Rightarrow> screen \<times> world \<Rightarrow> bool" where
  "handOffGuard unread sw =
     atMostOnce ((fst sw)\<lparr> s_onboarded := s_onboarded (fst sw) \<or> unread \<rparr>, snd sw)"

text \<open>
  The case in which \<^verbatim>\<open>send\<close> reaches \<^verbatim>\<open>completeOnboarding\<close>: the handler
  runs, the user message is stored, the screen is in onboarding mode at the step before
  the last, and \<^verbatim>\<open>progressOnboardingStep\<close> returns.
\<close>

definition handsOff :: "io \<Rightarrow> jsstring \<Rightarrow> screen \<Rightarrow> bool" where
  "handsOff e input s =
     (trim input \<noteq> [] \<and> s_uid s \<and> \<not> s_busy s \<and> userMessageOk e \<and> \<not> s_onboarded s \<and>
      s_onboardingStep s = Some (TOTAL_ONBOARDING_STEPS - 2) \<and>
      progressWriteOk e \<and> progressReadOk e)"

section \<open>A conversation that has reached step 3\<close>

definition goodDay :: jsstring where
  "goodDay = ascii ''a good day''"

definition thanks :: jsstring where
  "thanks = ascii ''thanks''"

definition questionMessage :: "int \<Rightarrow> chatMessage" where
  "questionMessage k = \<lparr> msg_role = Assistant, msg_text = question (onboardingQuestions ! nat k),
     msg_meta = Some (noMeta\<lparr> m_onboardingStep := Some k, m_answerRequired := Some True \<rparr>) \<rparr>"

definition answerMessage :: "int \<Rightarrow> jsstring \<Rightarrow> chatMessage" where
  "answerMessage k t = \<lparr> msg_role = User, msg_text = t,
     msg_meta = Some (noMeta\<lparr> m_onboardingStep := Some k \<rparr>) \<rparr>"

definition congratulationsMessage :: chatMessage where
  "congratulationsMessage = \<lparr> msg_role = Assistant, msg_text = congratulations,
     msg_meta = Some (noMeta\<lparr> m_onboardingCompleted := True \<rparr>) \<rparr>"

definition logAtStep3 :: "chatMessage list" where
  "logAtStep3 = [questionMessage 0, answerMessage 0 (ascii ''more energy''), questionMessage 1,
     answerMessage 1 (ascii ''7, time''), questionMessage 2, answerMessage 2 (ascii ''pizza''),
     questionMessage 3]"

definition worldAtStep3 :: world where
  "worldAtStep3 = freshWorld\<lparr> profile := sampleProfile\<lparr> onboardingStep := Some 3 \<rparr>,
     chatMessages := logAtStep3 \<rparr>"

definition screenAtStep3 :: screen where
  "screenAtStep3 = firstRender\<lparr> s_onboardingStep := Some 3, s_messages := logAtStep3,
     s_profile := Some (sampleProfile\<lparr> onboardingStep := Some 3 \<rparr>) \<rparr>"

text \<open>The screen and the world after the answer to step 3 has been handled.\<close>

definition screenAfterStep3 :: screen where
  "screenAfterStep3 = screenAtStep3\<lparr> s_onboardingStep := Some 4, s_onboarded := True,
     s_route := ''/(tabs)/meal'' \<rparr>"

definition worldAfterStep3 :: world where
  "worldAfterStep3 =
     \<lparr> profile = sampleProfile\<lparr> onboarded := Some True, onboardingStep := Some 5 \<rparr>,
       profileWrites = [StepWrite 4, CompletionWrite],
       chatMessages = logAtStep3 @ [answerMessage 3 goodDay, congratulationsMessage],
       timers = [SendNextTask 4],
       planRequests =
         [(join [0x0A]
             [shortQuestion (onboardingQuestions ! 0) @ (ascii ''more energy''),
              shortQuestion (onboardingQuestions ! 1) @ (ascii ''7, time''),
              shortQuestion (onboardingQuestions ! 2) @ (ascii ''pizza'')],
           (ascii ''more energy''))],
       plans = [\<lparr> mealPlan = ''meals'', workoutPlan = ''workouts'' \<rparr>] \<rparr>"

section \<open>Facts about profile completeness\<close>

lemma truthy_foldl_js_and:
  "truthy (foldl js_and a xs) = (truthy a \<and> (\<forall>x \<in> set xs. truthy x))"
  by (induction xs arbitrary: a) (auto simp: js_and_def)

lemma emptyOrNull_falsy: "emptyOrNull v \<Longrightarrow> \<not> truthy v"
  by (auto simp: emptyOrNull_def)

lemma isProfileComplete_iff:
  "isProfileComplete (Some r) =
     ((\<forall>f \<in> set requiredFields. truthy (f r)) \<and> profileCompleted r = JBool True)"
  unfolding isProfileComplete_def truthy_foldl_js_and
  by (auto simp: opt_chain_def requiredFields_def strict_eq_true_def)

lemma isProfileComplete_sample: "isProfileComplete (Some sampleProfile)"
  by (simp add: isProfileComplete_iff requiredFields_def sampleProfile_def)

lemma isProfileComplete_None: "\<not> isProfileComplete None"
  unfolding isProfileComplete_def truthy_foldl_js_and
  by (simp add: opt_chain_def)

text \<open>
  Claim C4. For every profile record, \<open>isProfileComplete\<close> is false whenever one of the
  required fields (display name, age, gender, height, weight, goals, activity preference,
  days per week, injuries, food dislikes) is empty or null, whatever the value of the
  \<open>profileCompleted\<close> flag; and it is false whenever the flag is not \<open>true\<close>, even when
  every required field is present.
\<close>

theorem C4_profile_complete_fails_closed:
  "(emptyOrNull (displayName r) \<or> emptyOrNull (age r) \<or> emptyOrNull (gender r) \<or>
    emptyOrNull (height r) \<or> emptyOrNull (weight r) \<or> emptyOrNull (goals r) \<or>
    emptyOrNull (activityPreference r) \<or> emptyOrNull (daysPerWeek r) \<or>
    emptyOrNull (injuries r) \<or> emptyOrNull (foodDislikes r) \<longrightarrow>
      \<not> isProfileComplete (Some r)) \<and>
   (profileCompleted r \<noteq> JBool True \<longrightarrow> \<not> isProfileComplete (Some r))"
  using emptyOrNull_falsy by (auto simp: isProfileComplete_iff requiredFields_def)

text \<open>
  A complete profile loses its completeness when the injuries are emptied (the flag still
  true), and when the flag is cleared (every field still present).
\<close>

theorem C4_witness:
  "isProfileComplete (Some sampleProfile) \<and>
   emptyOrNull (injuries (sampleProfile\<lparr> injuries := JStr [] \<rparr>)) \<and>
   profileCompleted (sampleProfile\<lparr> injuries := JStr [] \<rparr>) = JBool True \<and>
   \<not> isProfileComplete (Some (sampleProfile\<lparr> injuries := JStr [] \<rparr>)) \<and>
   profileCompleted (sampleProfile\<lparr> profileCompleted := JBool False \<rparr>) \<noteq> JBool True \<and>
   \<not> isProfileComplete (Some (sampleProfile\<lparr> profileCompleted := JBool False \<rparr>))"
  using C4_profile_complete_fails_closed [of "sampleProfile\<lparr> injuries := JStr [] \<rparr>"]
    C4_profile_complete_fails_closed [of "sampleProfile\<lparr> profileCompleted := JBool False \<rparr>"]
    isProfileComplete_sample
  by (simp add: emptyOrNull_def sampleProfile_def)

section \<open>Facts about the question table\<close>

lemma TOTAL_5: "TOTAL_ONBOARDING_STEPS = 5"
  by (simp add: TOTAL_ONBOARDING_STEPS_def onboardingQuestions_def)

lemma find_question:
  "find (\<lambda>q. q_step q = k) onboardingQuestions =
     (if 0 \<le> k \<and> k \<le> 4 then Some (onboardingQuestions ! nat k) else None)"
proof -
  consider "k = 0" | "k = 1" | "k = 2" | "k = 3" | "k = 4" | "k < 0 \<or> 4 < k" by linarith
  then show ?thesis
    by cases (auto simp: onboardingQuestions_def)
qed

lemma question_at_step:
  "0 \<le> k \<Longrightarrow> k \<le> 4 \<Longrightarrow>
     q_step (onboardingQuestions ! nat k) = k \<and> answerRequired (onboardingQuestions ! nat k)"
proof -
  assume "0 \<le> k" "k \<le> 4"
  then consider "k = 0" | "k = 1" | "k = 2" | "k = 3" | "k = 4" by linarith
  then show ?thesis
    by cases (auto simp: onboardingQuestions_def)
qed

lemma doesCurrentStepRequireAnswer_iff:
  "doesCurrentStepRequireAnswer k = (0 \<le> k \<and> k \<le> 4)"
  by (simp add: doesCurrentStepRequireAnswer_def find_question question_at_step)

lemma find_available:
  "find (\<lambda>q. q_step q = k) (filter (\<lambda>q. k \<le> q_step q) xs) =
   find (\<lambda>q. q_step q = (k::int)) xs"
  by (induction xs) auto

lemma available_empty:
  "length (filter (\<lambda>q. k \<le> q_step q) xs) = 0 \<Longrightarrow>
     find (\<lambda>q. q_step q = (k::int)) xs = None"
  by (induction xs) (auto split: if_splits)

text \<open>
  With the table of the source, \<^verbatim>\<open>sendNextOnboardingQuestion\<close> completes from step 5
  on, does nothing for a negative step or a question already found in the messages it
  was given, and otherwise sends the question of the step; no step of the table
  schedules an automatic advance.
\<close>

lemma sendNext_unfold:
  "sendNextOnboardingQuestion e w k ex =
     (if 5 \<le> k then completeOnboarding e w
      else if k < 0 then (None, w)
      else if hasQuestionBeenSent (case ex of None \<Rightarrow> [] | Some ms \<Rightarrow> ms) k then (None, w)
      else sendAura (questionOk e) w (question (onboardingQuestions ! nat k))
             (noMeta\<lparr> m_onboardingStep := Some k, m_answerRequired := Some True \<rparr>))"
proof (cases "length (filter (\<lambda>q. k \<le> q_step q) onboardingQuestions) = 0")
  case True
  from available_empty [OF True] have "\<not> (0 \<le> k \<and> k \<le> 4)"
    by (simp add: find_question split: if_splits)
  with True show ?thesis
    by (auto simp: sendNextOnboardingQuestion_def TOTAL_5 Let_def)
next
  case False
  then show ?thesis
    by (auto simp: sendNextOnboardingQuestion_def TOTAL_5 Let_def find_available find_question
        question_at_step sendAura_def sendMessage_def)
qed

lemma sendNext_messages:
  "chatMessages (snd (sendNextOnboardingQuestion e w k ex)) = chatMessages w \<or>
   chatMessages (snd (sendNextOnboardingQuestion e w k ex)) = chatMessages w @ [questionMessage k]"
  by (simp add: sendNext_unfold completeOnboarding_def sendAura_def sendMessage_def
      questionMessage_def)

lemma sendNext_suppressed:
  "hasQuestionBeenSent ms k \<Longrightarrow>
     chatMessages (snd (sendNextOnboardingQuestion e w k (Some ms))) = chatMessages w"
  by (simp add: sendNext_unfold completeOnboarding_def)

lemma question_sent: "hasQuestionBeenSent (ms @ [questionMessage k]) k"
  by (simp add: hasQuestionBeenSent_def questionMessage_def)

section \<open>Duplicate suppression\<close>

text \<open>
  Claim C6. \<^verbatim>\<open>sendNextOnboardingQuestion\<close> is idempotent in what it emits: for every
  step and every list of messages that already holds an assistant message whose
  \<^verbatim>\<open>meta.onboardingStep\<close> is that step, a call with that list adds no message to the
  log; so two calls in a row for the same step, the second one given the log as the
  first call left it, add at most one message, whatever calls fail.
\<close>

theorem C6_duplicate_suppression:
  "(hasQuestionBeenSent messages currentStep \<longrightarrow>
      chatMessages (snd (sendNextOnboardingQuestion e w currentStep (Some messages))) =
        chatMessages w) \<and>
   (sendNextOnboardingQuestion e1 w currentStep (Some messages) = (r1, w1) \<and>
    sendNextOnboardingQuestion e2 w1 currentStep (Some (chatMessages w1)) = (r2, w2) \<longrightarrow>
      length (chatMessages w2) \<le> length (chatMessages w) + 1)"
proof (intro conjI impI)
  assume "hasQuestionBeenSent messages currentStep"
  then show "chatMessages (snd (sendNextOnboardingQuestion e w currentStep (Some messages))) =
      chatMessages w"
    by (rule sendNext_suppressed)
next
  assume calls: "sendNextOnboardingQuestion e1 w currentStep (Some messages) = (r1, w1) \<and>
    sendNextOnboardingQuestion e2 w1 currentStep (Some (chatMessages w1)) = (r2, w2)"
  from sendNext_messages [of e1 w currentStep "Some messages"] calls
  consider (none) "chatMessages w1 = chatMessages w"
    | (one) "chatMessages w1 = chatMessages w @ [questionMessage currentStep]"
    by auto
  then show "length (chatMessages w2) \<le> length (chatMessages w) + 1"
  proof cases
    case none
    from sendNext_messages [of e2 w1 currentStep "Some (chatMessages w1)"] calls none
    show ?thesis by auto
  next
    case one
    then have "hasQuestionBeenSent (chatMessages w1) currentStep"
      by (simp add: question_sent)
    from sendNext_suppressed [OF this, of e2 w1] calls one show ?thesis by simp
  qed
qed

theorem C6_witness:
  "hasQuestionBeenSent [questionMessage 2] 2 \<and>
   chatMessages (snd (sendNextOnboardingQuestion allOk
      (freshWorld\<lparr> chatMessages := [questionMessage 2] \<rparr>) 2 (Some [questionMessage 2]))) =
     [questionMessage 2] \<and>
   sendNextOnboardingQuestion allOk freshWorld 2 (Some []) =
     (None, freshWorld\<lparr> chatMessages := [questionMessage 2] \<rparr>) \<and>
   sendNextOnboardingQuestion allOk (freshWorld\<lparr> chatMessages := [questionMessage 2] \<rparr>) 2
      (Some [questionMessage 2]) =
     (None, freshWorld\<lparr> chatMessages := [questionMessage 2] \<rparr>) \<and>
   length [questionMessage 2] \<le> length (chatMessages freshWorld) + 1"
  using C6_duplicate_suppression [where messages = "[questionMessage 2]" and currentStep = 2
      and e = allOk and w = "freshWorld\<lparr> chatMessages := [questionMessage 2] \<rparr>"
      and ?e1.0 = allOk and ?w1.0 = "freshWorld\<lparr> chatMessages := [questionMessage 2] \<rparr>"
      and ?r1.0 = None and ?e2.0 = allOk and ?r2.0 = None
      and ?w2.0 = "freshWorld\<lparr> chatMessages := [questionMessage 2] \<rparr>"]
    C6_duplicate_suppression [where messages = "[]" and currentStep = 2
      and e = allOk and w = freshWorld
      and ?e1.0 = allOk and ?w1.0 = "freshWorld\<lparr> chatMessages := [questionMessage 2] \<rparr>"
      and ?r1.0 = None and ?e2.0 = allOk and ?r2.0 = None
      and ?w2.0 = "freshWorld\<lparr> chatMessages := [questionMessage 2] \<rparr>"]
  by (simp add: sendNext_unfold hasQuestionBeenSent_def questionMessage_def sendAura_def
      sendMessage_def allOk_def freshWorld_def)

text \<open>
  Claim C10. For every step \<open>s\<close> that has an entry in the question table, a call
  \<^verbatim>\<open>sendNextOnboardingQuestion(uid, s)\<close> without the third argument (the call of the
  delayed callback in \<^verbatim>\<open>progressOnboardingStep\<close>) takes the empty list as the
  existing messages, so \<^verbatim>\<open>hasQuestionBeenSent\<close> is false and, when the store accepts
  the message, the assistant message of step \<open>s\<close> is added to the log whatever the log
  already holds: the suppression of duplicates is bypassed on this path.
\<close>

theorem C10_default_bypasses_suppression:
  "find (\<lambda>q. q_step q = s) onboardingQuestions = Some q \<and> questionOk e \<longrightarrow>
     \<not> hasQuestionBeenSent [] s \<and>
     sendNextOnboardingQuestion e w s None =
       (None, w\<lparr> chatMessages := chatMessages w @
                   [\<lparr> msg_role = Assistant, msg_text = question q,
                      msg_meta = Some (noMeta\<lparr> m_onboardingStep := Some s,
                                   m_answerRequired := Some (answerRequired q) \<rparr>) \<rparr>] \<rparr>)"
  by (auto simp: sendNext_unfold find_question question_at_step sendAura_def sendMessage_def
      hasQuestionBeenSent_def split: if_splits)

theorem C10_witness:
  "find (\<lambda>q. q_step q = 2) onboardingQuestions = Some (onboardingQuestions ! 2) \<and>
   questionOk allOk \<and>
   hasQuestionBeenSent (chatMessages (freshWorld\<lparr> chatMessages := [questionMessage 2] \<rparr>)) 2 \<and>
   sendNextOnboardingQuestion allOk (freshWorld\<lparr> chatMessages := [questionMessage 2] \<rparr>) 2 None =
     (None, freshWorld\<lparr> chatMessages := [questionMessage 2, questionMessage 2] \<rparr>)"
  using C10_default_bypasses_suppression [where s = 2 and q = "onboardingQuestions ! 2"
      and e = allOk and w = "freshWorld\<lparr> chatMessages := [questionMessage 2] \<rparr>"]
    question_at_step [of 2]
  by (simp add: find_question hasQuestionBeenSent_def questionMessage_def allOk_def)

section \<open>Advancing the step\<close>

lemma progress_fails:
  "\<not> progressWriteOk e \<Longrightarrow> progressOnboardingStep e w n = (Some StoreError, w)"
  by (simp add: progressOnboardingStep_def)

lemma progress_success:
  "progressOnboardingStep e w n = (None, w') \<Longrightarrow>
     onboardingStep (profile w') = Some (n + 1) \<and> timers w' = timers w @ [SendNextTask (n + 1)]"
  by (auto simp: progressOnboardingStep_def Let_def split: if_splits)

lemma send_progress_fails:
  assumes "\<not> progressWriteOk e" "userMessageOk e" "trim input \<noteq> []" "s_uid s" "\<not> s_busy s"
    "\<not> s_onboarded s" "s_onboardingStep s = Some n" "doesCurrentStepRequireAnswer n"
  shows "s_onboardingStep (fst (send e input s w)) = Some n \<and>
         profile (snd (send e input s w)) = profile w \<and>
         timers (snd (send e input s w)) = timers w"
  using assms
  by (simp add: send_def sendTry_def onboardingMode_def progress_fails sendUserMessage_def
      sendMessage_def sendAura_def Let_def)

lemma trim_good: "trim goodDay = goodDay"
  by (simp add: trim_def isWhiteSpace_def goodDay_def ascii_def)

lemma goodDay_nonempty: "goodDay \<noteq> []"
  by (simp add: goodDay_def ascii_def)

text \<open>
  Claim C8. When \<^verbatim>\<open>progressOnboardingStep(uid, N)\<close> returns, the profile holds
  \<open>onboardingStep = N + 1\<close> (and the send of the next question is scheduled). When the
  write of the profile fails, the error reaches the caller and nothing else has
  happened: the profile is unchanged and no send is scheduled; in \<^verbatim>\<open>send\<close>, the
  caller, the step of the screen is then not advanced either.
\<close>

theorem C8_progress_step:
  "(progressOnboardingStep e w n = (None, w') \<longrightarrow>
      onboardingStep (profile w') = Some (n + 1) \<and>
      timers w' = timers w @ [SendNextTask (n + 1)]) \<and>
   (\<not> progressWriteOk e \<longrightarrow> progressOnboardingStep e w n = (Some StoreError, w)) \<and>
   (\<not> progressWriteOk e \<and> userMessageOk e \<and> trim input \<noteq> [] \<and> s_uid s \<and> \<not> s_busy s \<and>
    \<not> s_onboarded s \<and> s_onboardingStep s = Some n \<and> doesCurrentStepRequireAnswer n \<longrightarrow>
      s_onboardingStep (fst (send e input s w)) = Some n \<and>
      profile (snd (send e input s w)) = profile w \<and>
      timers (snd (send e input s w)) = timers w)"
  using progress_success progress_fails send_progress_fails by blast

theorem C8_witness:
  "progressOnboardingStep allOk worldAtStep3 3 =
     (None, snd (progressOnboardingStep allOk worldAtStep3 3)) \<and>
   onboardingStep (profile (snd (progressOnboardingStep allOk worldAtStep3 3))) = Some 4 \<and>
   timers (snd (progressOnboardingStep allOk worldAtStep3 3)) = [SendNextTask 4] \<and>
   \<not> progressWriteOk (allOk\<lparr> progressWriteOk := False \<rparr>) \<and>
   progressOnboardingStep (allOk\<lparr> progressWriteOk := False \<rparr>) worldAtStep3 3 =
     (Some StoreError, worldAtStep3) \<and>
   s_onboardingStep (fst (send (allOk\<lparr> progressWriteOk := False \<rparr>) goodDay
      screenAtStep3 worldAtStep3)) = Some 3 \<and>
   profile (snd (send (allOk\<lparr> progressWriteOk := False \<rparr>) goodDay
      screenAtStep3 worldAtStep3)) = profile worldAtStep3 \<and>
   timers (snd (send (allOk\<lparr> progressWriteOk := False \<rparr>) goodDay
      screenAtStep3 worldAtStep3)) = []"
proof -
  have ok: "progressOnboardingStep allOk worldAtStep3 3 =
     (None, snd (progressOnboardingStep allOk worldAtStep3 3))"
    by (simp add: progressOnboardingStep_def allOk_def Let_def)
  have pre: "\<not> progressWriteOk (allOk\<lparr> progressWriteOk := False \<rparr>)"
    "userMessageOk (allOk\<lparr> progressWriteOk := False \<rparr>)"
    "s_uid screenAtStep3" "\<not> s_busy screenAtStep3" "\<not> s_onboarded screenAtStep3"
    "s_onboardingStep screenAtStep3 = Some 3" "doesCurrentStepRequireAnswer 3"
    "timers worldAtStep3 = []"
    by (simp_all add: allOk_def screenAtStep3_def firstRender_def
        doesCurrentStepRequireAnswer_iff worldAtStep3_def freshWorld_def)
  from C8_progress_step [where e = allOk and w = worldAtStep3 and n = 3
      and w' = "snd (progressOnboardingStep allOk worldAtStep3 3)"] ok pre(8)
  have first: "onboardingStep (profile (snd (progressOnboardingStep allOk worldAtStep3 3))) = Some 4"
    "timers (snd (progressOnboardingStep allOk worldAtStep3 3)) = [SendNextTask 4]"
    by simp_all
  from C8_progress_step [where e = "allOk\<lparr> progressWriteOk := False \<rparr>" and w = worldAtStep3
      and n = 3 and input = "goodDay" and s = screenAtStep3] pre
  have second: "progressOnboardingStep (allOk\<lparr> progressWriteOk := False \<rparr>) worldAtStep3 3 =
     (Some StoreError, worldAtStep3)"
    "s_onboardingStep (fst (send (allOk\<lparr> progressWriteOk := False \<rparr>) goodDay
      screenAtStep3 worldAtStep3)) = Some 3"
    "profile (snd (send (allOk\<lparr> progressWriteOk := False \<rparr>) goodDay
      screenAtStep3 worldAtStep3)) = profile worldAtStep3"
    "timers (snd (send (allOk\<lparr> progressWriteOk := False \<rparr>) goodDay
      screenAtStep3 worldAtStep3)) = []"
    by (simp_all add: trim_good goodDay_nonempty)
  from ok first pre(1) second show ?thesis by simp
qed

section \<open>The invariant of the profile\<close>

lemma complete_establishes:
  "completeOnboarding e w = (None, w') \<Longrightarrow>
     onboarded (profile w') = Some True \<and>
     onboardingStep (profile w') = Some TOTAL_ONBOARDING_STEPS"
  by (auto simp: completeOnboarding_def split: if_splits)

lemma complete_invariant:
  "onboardedInvariant (profile w) \<Longrightarrow>
     onboardedInvariant (profile (snd (completeOnboarding e w)))"
  by (auto simp: completeOnboarding_def onboardedInvariant_def)

lemma progress_onboarded:
  "onboarded (profile (snd (progressOnboardingStep e w n))) = onboarded (profile w)"
  by (simp add: progressOnboardingStep_def Let_def)

lemma sendNext_invariant:
  "onboardedInvariant (profile w) \<Longrightarrow>
     onboardedInvariant (profile (snd (sendNextOnboardingQuestion e w k ex)))"
  by (simp add: sendNext_unfold complete_invariant sendAura_def sendMessage_def)

text \<open>
  Claim C7, as the code has it. \<^verbatim>\<open>completeOnboarding\<close> establishes the invariant
  "\<open>onboarded\<close> is true only with \<open>onboardingStep = TOTAL_ONBOARDING_STEPS\<close>" by writing
  both fields in one update, and \<^verbatim>\<open>sendNextOnboardingQuestion\<close> preserves it.
  \<^verbatim>\<open>progressOnboardingStep\<close> never changes \<open>onboarded\<close> and writes the step without
  reading the flag: it preserves the invariant on a profile that is not yet onboarded
  (the conversational phase).
\<close>

theorem C7_invariant_by_operation:
  "(completeOnboarding e w = (None, w') \<longrightarrow>
      onboarded (profile w') = Some True \<and>
      onboardingStep (profile w') = Some TOTAL_ONBOARDING_STEPS) \<and>
   (onboardedInvariant (profile w) \<longrightarrow>
      onboardedInvariant (profile (snd (sendNextOnboardingQuestion e w k ex)))) \<and>
   onboarded (profile (snd (progressOnboardingStep e w n))) = onboarded (profile w) \<and>
   (onboarded (profile w) \<noteq> Some True \<longrightarrow>
      onboardedInvariant (profile (snd (progressOnboardingStep e w n))))"
  using complete_establishes [of e w w'] sendNext_invariant [of w e k ex]
    progress_onboarded [of e w n]
  by (auto simp: onboardedInvariant_def)

theorem C7_witness:
  "completeOnboarding allOk worldAtStep3 = (None, snd (completeOnboarding allOk worldAtStep3)) \<and>
   onboarded (profile (snd (completeOnboarding allOk worldAtStep3))) = Some True \<and>
   onboardingStep (profile (snd (completeOnboarding allOk worldAtStep3))) = Some 5 \<and>
   onboardedInvariant (profile worldAtStep3) \<and>
   onboardedInvariant (profile (snd (sendNextOnboardingQuestion allOk worldAtStep3 5 None))) \<and>
   onboarded (profile worldAtStep3) \<noteq> Some True \<and>
   onboardedInvariant (profile (snd (progressOnboardingStep allOk worldAtStep3 3)))"
proof -
  have pre: "completeOnboarding allOk worldAtStep3 =
      (None, snd (completeOnboarding allOk worldAtStep3))"
    "onboarded (profile worldAtStep3) \<noteq> Some True" "onboardedInvariant (profile worldAtStep3)"
    by (simp_all add: completeOnboarding_def allOk_def worldAtStep3_def sampleProfile_def
        onboardedInvariant_def)
  from C7_invariant_by_operation [where e = allOk and w = worldAtStep3 and k = 5 and ex = None
      and n = 3 and w' = "snd (completeOnboarding allOk worldAtStep3)"] pre
  show ?thesis by (simp add: TOTAL_5)
qed

text \<open>
  The claim as it was stated fails for \<^verbatim>\<open>progressOnboardingStep\<close>: on a profile that
  \<^verbatim>\<open>completeOnboarding\<close> has just written, \<^verbatim>\<open>progressOnboardingStep(uid, 0)\<close> leaves
  \<open>onboarded = true\<close> with \<open>onboardingStep = 1\<close>.
\<close>

theorem C7_counterexample:
  "onboardedInvariant (profile (snd (completeOnboarding allOk freshWorld))) \<and>
   fst (progressOnboardingStep allOk (snd (completeOnboarding allOk freshWorld)) 0) = None \<and>
   onboarded (profile (snd (progressOnboardingStep allOk
       (snd (completeOnboarding allOk freshWorld)) 0))) = Some True \<and>
   onboardingStep (profile (snd (progressOnboardingStep allOk
       (snd (completeOnboarding allOk freshWorld)) 0))) = Some 1 \<and>
   TOTAL_ONBOARDING_STEPS = 5 \<and>
   \<not> onboardedInvariant (profile (snd (progressOnboardingStep allOk
       (snd (completeOnboarding allOk freshWorld)) 0)))"
  by (simp add: onboardedInvariant_def completeOnboarding_def progressOnboardingStep_def
      allOk_def freshWorld_def TOTAL_5 Let_def)

text \<open>
  The same happens through the screen: the state of its first render says "step 0, not
  onboarded" until the profile read resolves, and a message sent in that state on an
  onboarded profile writes step 1.
\<close>

lemma send_before_profile_read:
  "onboarded (profile (snd (send allOk goodDay firstRender worldAfterStep3))) = Some True \<and>
   onboardingStep (profile (snd (send allOk goodDay firstRender worldAfterStep3))) = Some 1"
  by (simp add: send_def sendTry_def onboardingMode_def trim_good goodDay_nonempty
      firstRender_def
      worldAfterStep3_def allOk_def TOTAL_5 Let_def doesCurrentStepRequireAnswer_iff
      progressOnboardingStep_def sendUserMessage_def sendMessage_def)

section \<open>When onboarding completes\<close>

lemma completions_sendAura: "completions (snd (sendAura ok w t m)) = completions w"
  by (simp add: sendAura_def completions_def sendMessage_def)

lemma completions_chatMode: "completions (snd (chatMode e w)) = completions w"
  by (simp add: chatMode_def completions_def sendAura_def sendMessage_def
      split: option.splits)

lemma completions_handOff:
  "completions (snd (snd (handOff e s w))) = completions w + (if completeWriteOk e then 1 else 0)"
  by (simp add: handOff_def Let_def completeOnboarding_def sendAura_def sendMessage_def
      completions_def split: option.splits planReply.splits)

lemma completions_progress: "completions (snd (progressOnboardingStep e w n)) = completions w"
  by (simp add: completions_def progressOnboardingStep_def Let_def)

lemma completions_onboardingMode:
  "completions (snd (snd (onboardingMode e s w))) =
     completions w +
       (if s_onboardingStep s = Some (TOTAL_ONBOARDING_STEPS - 2) \<and> progressWriteOk e \<and>
           progressReadOk e \<and> completeWriteOk e then 1 else 0)"
proof (cases "s_onboardingStep s = Some (TOTAL_ONBOARDING_STEPS - 2)")
  case False
  obtain r1 w1 where p: "(case s_onboardingStep s of
              None \<Rightarrow> (None, w)
            | Some k \<Rightarrow> if doesCurrentStepRequireAnswer k then progressOnboardingStep e w k
                        else (None, w)) = (r1, w1)"
    by (cases "(case s_onboardingStep s of
              None \<Rightarrow> (None, w)
            | Some k \<Rightarrow> if doesCurrentStepRequireAnswer k then progressOnboardingStep e w k
                        else (None, w))") auto
  have "completions w1 = completions w"
  proof (cases "s_onboardingStep s")
    case None
    with p show ?thesis by simp
  next
    case (Some k)
    with p completions_progress [of e w k] show ?thesis
      by (cases "doesCurrentStepRequireAnswer k") auto
  qed
  with False p show ?thesis
    by (cases r1) (simp_all add: onboardingMode_def Let_def)
next
  case True
  then have three: "s_onboardingStep s = Some 3" by (simp add: TOTAL_5)
  show ?thesis
  proof (cases "progressWriteOk e \<and> progressReadOk e")
    case False
    with three show ?thesis
      by (auto simp: onboardingMode_def doesCurrentStepRequireAnswer_iff
          progressOnboardingStep_def Let_def completions_def TOTAL_5)
  next
    case True
    with three show ?thesis
      by (simp add: onboardingMode_def doesCurrentStepRequireAnswer_iff
          progressOnboardingStep_def Let_def TOTAL_5 completions_handOff)
         (simp add: completions_def)
  qed
qed

lemma completions_sendTry:
  "completions (snd (snd (sendTry e t s w))) =
     completions w +
       (if userMessageOk e \<and> \<not> s_onboarded s \<and>
           s_onboardingStep s = Some (TOTAL_ONBOARDING_STEPS - 2) \<and> progressWriteOk e \<and>
           progressReadOk e \<and> completeWriteOk e then 1 else 0)"
proof (cases "userMessageOk e")
  case False
  then show ?thesis by (simp add: sendTry_def sendUserMessage_def sendMessage_def)
next
  case True
  let ?w1 = "w\<lparr> chatMessages := chatMessages w @
               [\<lparr> msg_role = User, msg_text = t,
                  msg_meta = Some (noMeta\<lparr> m_onboardingStep := s_onboardingStep s \<rparr>) \<rparr>] \<rparr>"
  have c1: "completions ?w1 = completions w" by (simp add: completions_def)
  show ?thesis
  proof (cases "s_onboarded s")
    case True
    obtain r w2 where c: "chatMode e ?w1 = (r, w2)" by (cases "chatMode e ?w1") auto
    with completions_chatMode [of e ?w1] c1 have "completions w2 = completions w" by simp
    with True \<open>userMessageOk e\<close> c show ?thesis
      by (simp add: sendTry_def sendUserMessage_def sendMessage_def)
  next
    case False
    with \<open>userMessageOk e\<close> show ?thesis
      using completions_onboardingMode [of e s ?w1] c1
      by (simp add: sendTry_def sendUserMessage_def sendMessage_def)
  qed
qed

lemma completions_send:
  "completions (snd (send e input s w)) =
     completions w + (if handsOff e input s \<and> completeWriteOk e then 1 else 0)"
proof (cases "trim input = [] \<or> \<not> s_uid s \<or> s_busy s")
  case True
  then show ?thesis by (auto simp: send_def handsOff_def)
next
  case False
  obtain r s1 w1 where t: "sendTry e (trim input) (s\<lparr> s_busy := True \<rparr>) w = (r, s1, w1)"
    by (cases "sendTry e (trim input) (s\<lparr> s_busy := True \<rparr>) w") auto
  have "completions (snd (send e input s w)) = completions w1"
    using False t by (cases r) (simp_all add: send_def Let_def completions_sendAura)
  moreover have "completions w1 = completions w +
       (if userMessageOk e \<and> \<not> s_onboarded s \<and>
           s_onboardingStep s = Some (TOTAL_ONBOARDING_STEPS - 2) \<and> progressWriteOk e \<and>
           progressReadOk e \<and> completeWriteOk e then 1 else 0)"
    using completions_sendTry [of e "trim input" "s\<lparr> s_busy := True \<rparr>" w] t by simp
  ultimately show ?thesis using False by (auto simp: handsOff_def)
qed

text \<open>
  In the case \<open>handsOff\<close>, \<^verbatim>\<open>send\<close> is the hand-off block run on the world that
  \<^verbatim>\<open>sendUserMessage\<close> and \<^verbatim>\<open>progressOnboardingStep\<close> have left.
\<close>

lemma send_handsOff:
  assumes "handsOff e input s"
  shows "\<exists>r s1 w1.
     handOff e (s\<lparr> s_busy := True, s_onboardingStep := Some (TOTAL_ONBOARDING_STEPS - 1) \<rparr>)
       (w\<lparr> chatMessages := chatMessages w @
               [\<lparr> msg_role = User, msg_text = trim input,
                  msg_meta = Some (noMeta\<lparr> m_onboardingStep := s_onboardingStep s \<rparr>) \<rparr>],
           profile := (profile w)\<lparr> onboardingStep := Some (TOTAL_ONBOARDING_STEPS - 1) \<rparr>,
           profileWrites := profileWrites w @ [StepWrite (TOTAL_ONBOARDING_STEPS - 1)],
           timers := timers w @ [SendNextTask (TOTAL_ONBOARDING_STEPS - 1)] \<rparr>) = (r, s1, w1) \<and>
     send e input s w =
       (s1\<lparr> s_loading := False, s_busy := False \<rparr>,
        case r of None \<Rightarrow> w1
        | Some err \<Rightarrow> snd (sendAura (snagMessageOk e) w1 snag
                            (noMeta\<lparr> m_error := Some err \<rparr>)))"
  using assms
  by (auto simp: handsOff_def send_def sendTry_def onboardingMode_def Let_def TOTAL_5
      doesCurrentStepRequireAnswer_iff progressOnboardingStep_def sendUserMessage_def
      sendMessage_def split: prod.splits option.splits)

lemma handOff_screen:
  "s_onboarded (fst (snd (handOff e s w))) \<and>
   s_onboardingStep (fst (snd (handOff e s w))) = s_onboardingStep s"
  by (simp add: handOff_def Let_def split: option.splits planReply.splits prod.splits)

lemma handOff_world:
  "timers (snd (snd (handOff e s w))) = timers w \<and>
   (completeWriteOk e \<longrightarrow>
      onboarded (profile (snd (snd (handOff e s w)))) = Some True \<and>
      onboardingStep (profile (snd (snd (handOff e s w)))) = Some TOTAL_ONBOARDING_STEPS)"
  by (simp add: handOff_def Let_def completeOnboarding_def sendAura_def sendMessage_def
      split: option.splits planReply.splits)

lemma send_handsOff_state:
  assumes "handsOff e input s"
  shows "s_onboarded (fst (send e input s w)) \<and>
         s_onboardingStep (fst (send e input s w)) = Some (TOTAL_ONBOARDING_STEPS - 1) \<and>
         timers (snd (send e input s w)) =
           timers w @ [SendNextTask (TOTAL_ONBOARDING_STEPS - 1)] \<and>
         (completeWriteOk e \<longrightarrow>
            onboarded (profile (snd (send e input s w))) = Some True \<and>
            onboardingStep (profile (snd (send e input s w))) = Some TOTAL_ONBOARDING_STEPS)"
proof -
  define S where
    "S = s\<lparr> s_busy := True, s_onboardingStep := Some (TOTAL_ONBOARDING_STEPS - 1) \<rparr>"
  define W where "W = w\<lparr> chatMessages := chatMessages w @
               [\<lparr> msg_role = User, msg_text = trim input,
                  msg_meta = Some (noMeta\<lparr> m_onboardingStep := s_onboardingStep s \<rparr>) \<rparr>],
           profile := (profile w)\<lparr> onboardingStep := Some (TOTAL_ONBOARDING_STEPS - 1) \<rparr>,
           profileWrites := profileWrites w @ [StepWrite (TOTAL_ONBOARDING_STEPS - 1)],
           timers := timers w @ [SendNextTask (TOTAL_ONBOARDING_STEPS - 1)] \<rparr>"
  from send_handsOff [OF assms, of w] obtain r s1 w1 where
    h: "handOff e S W = (r, s1, w1)"
    and s: "send e input s w =
       (s1\<lparr> s_loading := False, s_busy := False \<rparr>,
        case r of None \<Rightarrow> w1
        | Some err \<Rightarrow> snd (sendAura (snagMessageOk e) w1 snag
                            (noMeta\<lparr> m_error := Some err \<rparr>)))"
    unfolding S_def W_def by blast
  from handOff_screen [of e S W] h
  have scr: "s_onboarded s1" "s_onboardingStep s1 = Some (TOTAL_ONBOARDING_STEPS - 1)"
    by (simp_all add: S_def)
  from handOff_world [of e S W] h
  have wld: "timers w1 = timers w @ [SendNextTask (TOTAL_ONBOARDING_STEPS - 1)]"
    "completeWriteOk e \<longrightarrow> onboarded (profile w1) = Some True \<and>
       onboardingStep (profile w1) = Some TOTAL_ONBOARDING_STEPS"
    by (simp_all add: W_def)
  show ?thesis
    using s scr wld by (cases r) (simp_all add: sendAura_def sendMessage_def)
qed

lemma sendNext_last_question:
  "completions (snd (sendNextOnboardingQuestion e w (TOTAL_ONBOARDING_STEPS - 1) None)) =
     completions w \<and>
   (questionOk e \<longrightarrow>
      chatMessages (snd (sendNextOnboardingQuestion e w (TOTAL_ONBOARDING_STEPS - 1) None)) =
        chatMessages w @ [questionMessage (TOTAL_ONBOARDING_STEPS - 1)])"
  by (simp add: sendNext_unfold TOTAL_5 sendAura_def sendMessage_def completions_def
      hasQuestionBeenSent_def questionMessage_def)

text \<open>The conversation at step 3, run on the code.\<close>

lemma planText_scenario:
  "planText logAtStep3 =
     Some (join [0x0A]
             [shortQuestion (onboardingQuestions ! 0) @ (ascii ''more energy''),
              shortQuestion (onboardingQuestions ! 1) @ (ascii ''7, time''),
              shortQuestion (onboardingQuestions ! 2) @ (ascii ''pizza'')])"
  by (simp add: planText_def logAtStep3_def questionMessage_def answerMessage_def planLine_def
      questionAt_def noMeta_def TOTAL_5 [unfolded TOTAL_ONBOARDING_STEPS_def])

lemma coreMotivation_scenario: "coreMotivationOf logAtStep3 = (ascii ''more energy'')"
  by (simp add: coreMotivationOf_def logAtStep3_def questionMessage_def answerMessage_def
      noMeta_def)

lemma send_scenario:
  "send allOk goodDay screenAtStep3 worldAtStep3 = (screenAfterStep3, worldAfterStep3)"
  by (simp add: send_def sendTry_def onboardingMode_def handOff_def trim_good
      goodDay_nonempty screenAtStep3_def
      screenAfterStep3_def worldAfterStep3_def planText_scenario coreMotivation_scenario
      worldAtStep3_def freshWorld_def firstRender_def allOk_def TOTAL_5 Let_def
      doesCurrentStepRequireAnswer_iff progressOnboardingStep_def completeOnboarding_def
      sendUserMessage_def sendAura_def sendMessage_def answerMessage_def
      congratulationsMessage_def)

lemma handsOff_scenario: "handsOff allOk goodDay screenAtStep3"
  by (simp add: handsOff_def trim_good goodDay_nonempty screenAtStep3_def firstRender_def
      allOk_def TOTAL_5)

lemma no_question_4:
  "\<not> hasQuestionBeenSent (chatMessages worldAtStep3) 4 \<and>
   \<not> hasQuestionBeenSent (chatMessages worldAfterStep3) 4"
  by (simp add: hasQuestionBeenSent_def worldAtStep3_def worldAfterStep3_def logAtStep3_def
      questionMessage_def answerMessage_def congratulationsMessage_def noMeta_def)

text \<open>
  A screen in the state of its first render walks through the steps again, whatever the
  profile and the log hold, and reaches the case \<open>handsOff\<close> at step 3.
\<close>

lemma send_advances:
  assumes "k = 0 \<or> k = 1 \<or> k = 2"
  shows "fst (send allOk goodDay (firstRender\<lparr> s_onboardingStep := Some k \<rparr>) w) =
           firstRender\<lparr> s_onboardingStep := Some (k + 1) \<rparr> \<and>
         tally (snd (send allOk goodDay (firstRender\<lparr> s_onboardingStep := Some k \<rparr>) w)) =
           tally w"
  using assms
  by (auto simp: send_def sendTry_def onboardingMode_def trim_good goodDay_nonempty
      firstRender_def allOk_def TOTAL_5 Let_def doesCurrentStepRequireAnswer_iff
      progressOnboardingStep_def sendUserMessage_def sendMessage_def tally_def
      completionMessages_def isCompletionMessage_def noMeta_def)

lemma handsOff_firstRender:
  "handsOff allOk goodDay (firstRender\<lparr> s_onboardingStep := Some k \<rparr>) = (k = 3)"
  by (simp add: handsOff_def trim_good goodDay_nonempty firstRender_def allOk_def TOTAL_5)

lemma second_completion_after_mount:
  assumes "s_uid s"
  shows "completions (snd (run [Mount, Send allOk goodDay, Send allOk goodDay,
            Send allOk goodDay, Send allOk goodDay] (s, w))) = completions w + 1"
proof -
  have start: "firstRender\<lparr> s_uid := s_uid s \<rparr> = firstRender\<lparr> s_onboardingStep := Some 0 \<rparr>"
    using assms by (simp add: firstRender_def)
  have ok: "completeWriteOk allOk" by (simp add: allOk_def)
  obtain s1 w1 where a1: "send allOk goodDay (firstRender\<lparr> s_onboardingStep := Some 0 \<rparr>) w =
      (s1, w1)"
    by (cases "send allOk goodDay (firstRender\<lparr> s_onboardingStep := Some 0 \<rparr>) w") auto
  with send_advances [of 0 w]
    completions_send [of allOk goodDay "firstRender\<lparr> s_onboardingStep := Some 0 \<rparr>" w]
  have b1: "s1 = firstRender\<lparr> s_onboardingStep := Some 1 \<rparr>" "completions w1 = completions w"
    by (simp_all add: handsOff_firstRender)
  obtain s2 w2 where a2: "send allOk goodDay s1 w1 = (s2, w2)"
    by (cases "send allOk goodDay s1 w1") auto
  with send_advances [of 1 w1] completions_send [of allOk goodDay s1 w1] b1
  have b2: "s2 = firstRender\<lparr> s_onboardingStep := Some 2 \<rparr>" "completions w2 = completions w"
    by (simp_all add: handsOff_firstRender)
  obtain s3 w3 where a3: "send allOk goodDay s2 w2 = (s3, w3)"
    by (cases "send allOk goodDay s2 w2") auto
  with send_advances [of 2 w2] completions_send [of allOk goodDay s2 w2] b2
  have b3: "s3 = firstRender\<lparr> s_onboardingStep := Some 3 \<rparr>" "completions w3 = completions w"
    by (simp_all add: handsOff_firstRender)
  from completions_send [of allOk goodDay s3 w3] b3 ok
  have "completions (snd (send allOk goodDay s3 w3)) = completions w + 1"
    by (simp add: handsOff_firstRender)
  with start a1 a2 a3 show ?thesis by simp
qed

text \<open>
  Claim C1, as the code has it, for one call of each handler. With the table of five steps
  (0 to 4, each one requiring an answer), a call of \<^verbatim>\<open>send\<close> applies a completion
  write to the profile in exactly one case, and then exactly one: the case \<open>handsOff\<close>
  (the input is not blank after \<^verbatim>\<open>trim\<close>, the message is handled in onboarding mode
  while the step of the screen is \<open>TOTAL_ONBOARDING_STEPS - 2\<close>, and
  \<^verbatim>\<open>progressOnboardingStep\<close> has returned) with a completion write that succeeds. In
  the case \<open>handsOff\<close> the step of the screen has been set to
  \<open>TOTAL_ONBOARDING_STEPS - 1\<close> and the send of question 4 is scheduled, the screen is
  marked onboarded, and when the completion write succeeds the profile holds
  \<open>onboarded = true\<close> and the step \<open>TOTAL_ONBOARDING_STEPS\<close>. The call that the timer makes,
  \<^verbatim>\<open>sendNextOnboardingQuestion(uid, 4)\<close>, applies no completion write and, when the
  message store accepts it, adds question 4 to the log. Nothing is said here of how often
  the case \<open>handsOff\<close> arises in a session: that is the subject of the next section.
\<close>

theorem C1_completion_at_second_to_last_step:
  "completions (snd (send e input s w)) =
     completions w + (if handsOff e input s \<and> completeWriteOk e then 1 else 0) \<and>
   (handsOff e input s \<longrightarrow>
      s_onboarded (fst (send e input s w)) \<and>
      s_onboardingStep (fst (send e input s w)) = Some (TOTAL_ONBOARDING_STEPS - 1) \<and>
      timers (snd (send e input s w)) =
        timers w @ [SendNextTask (TOTAL_ONBOARDING_STEPS - 1)] \<and>
      (completeWriteOk e \<longrightarrow>
         onboarded (profile (snd (send e input s w))) = Some True \<and>
         onboardingStep (profile (snd (send e input s w))) = Some TOTAL_ONBOARDING_STEPS)) \<and>
   completions (snd (sendNextOnboardingQuestion e' w' (TOTAL_ONBOARDING_STEPS - 1) None)) =
     completions w' \<and>
   (questionOk e' \<longrightarrow>
      chatMessages (snd (sendNextOnboardingQuestion e' w' (TOTAL_ONBOARDING_STEPS - 1) None)) =
        chatMessages w' @ [questionMessage (TOTAL_ONBOARDING_STEPS - 1)])"
  using completions_send [of e input s w] send_handsOff_state [of e input s w]
    sendNext_last_question [of e' w'] by blast

text \<open>
  The scenario: the answer to step 3 completes onboarding, the timer then sends
  question 4, and the answer to question 4 completes nothing.
\<close>

theorem C1_witness:
  "handsOff allOk goodDay screenAtStep3 \<and> completeWriteOk allOk \<and>
   completions worldAtStep3 = 0 \<and>
   completions (snd (send allOk goodDay screenAtStep3 worldAtStep3)) = 1 \<and>
   s_onboardingStep (fst (send allOk goodDay screenAtStep3 worldAtStep3)) = Some 4 \<and>
   timers (snd (send allOk goodDay screenAtStep3 worldAtStep3)) = [SendNextTask 4] \<and>
   onboarded (profile (snd (send allOk goodDay screenAtStep3 worldAtStep3))) = Some True \<and>
   questionOk allOk \<and>
   completions (fireTimer allOk 0 worldAfterStep3) = 1 \<and>
   chatMessages (fireTimer allOk 0 worldAfterStep3) =
     chatMessages worldAfterStep3 @ [questionMessage 4] \<and>
   \<not> handsOff allOk thanks screenAfterStep3 \<and>
   completions (snd (send allOk thanks screenAfterStep3 (fireTimer allOk 0 worldAfterStep3))) = 1"
proof -
  have pre: "handsOff allOk goodDay screenAtStep3" "completeWriteOk allOk"
    "questionOk allOk" "completions worldAtStep3 = 0" "timers worldAtStep3 = []"
    "\<not> handsOff allOk thanks screenAfterStep3"
    "completions worldAfterStep3 = 1"
    using handsOff_scenario
    by (simp_all add: allOk_def completions_def worldAtStep3_def
        freshWorld_def screenAfterStep3_def worldAfterStep3_def)
       (simp add: handsOff_def)
  have fire: "fireTimer allOk 0 worldAfterStep3 =
      snd (sendNextOnboardingQuestion allOk (worldAfterStep3\<lparr> timers := [] \<rparr>)
             (TOTAL_ONBOARDING_STEPS - 1) None)"
    by (simp add: fireTimer_def worldAfterStep3_def Let_def TOTAL_5)
  have same: "completions (worldAfterStep3\<lparr> timers := [] \<rparr>) = 1"
    "chatMessages (worldAfterStep3\<lparr> timers := [] \<rparr>) = chatMessages worldAfterStep3"
    using pre(7) by (simp_all add: completions_def)
  from C1_completion_at_second_to_last_step [where e = allOk and input = "goodDay"
      and s = screenAtStep3 and w = worldAtStep3 and e' = allOk
      and w' = "worldAfterStep3\<lparr> timers := [] \<rparr>"] pre same fire
  have first: "completions (snd (send allOk goodDay screenAtStep3 worldAtStep3)) = 1"
    "s_onboardingStep (fst (send allOk goodDay screenAtStep3 worldAtStep3)) = Some 4"
    "timers (snd (send allOk goodDay screenAtStep3 worldAtStep3)) = [SendNextTask 4]"
    "onboarded (profile (snd (send allOk goodDay screenAtStep3 worldAtStep3))) = Some True"
    "completions (fireTimer allOk 0 worldAfterStep3) = 1"
    "chatMessages (fireTimer allOk 0 worldAfterStep3) =
       chatMessages worldAfterStep3 @ [questionMessage 4]"
    by (simp_all add: TOTAL_5)
  from C1_completion_at_second_to_last_step [where e = allOk and input = "thanks"
      and s = screenAfterStep3 and w = "fireTimer allOk 0 worldAfterStep3"] pre(6) first(5)
  have "completions (snd (send allOk thanks screenAfterStep3
      (fireTimer allOk 0 worldAfterStep3))) = 1"
    by simp
  with pre first show ?thesis by simp
qed

text \<open>
  The claim as it was stated fails: in the conversation at step 3, the screen's step is
  \<open>TOTAL_ONBOARDING_STEPS - 2\<close> and question 4 has not been sent; handling the answer
  calls \<^verbatim>\<open>completeOnboarding\<close> at once, before question 4 is sent or answered. Nor
  is that completion the only one of a session: when the screen is then mounted anew and
  four messages are sent before its profile read resolves, the profile is completed a
  second time.
\<close>

theorem C1_counterexample:
  "s_onboardingStep screenAtStep3 = Some (TOTAL_ONBOARDING_STEPS - 2) \<and>
   completions worldAtStep3 = 0 \<and>
   \<not> hasQuestionBeenSent (chatMessages worldAtStep3) 4 \<and>
   completions (snd (send allOk goodDay screenAtStep3 worldAtStep3)) = 1 \<and>
   onboarded (profile (snd (send allOk goodDay screenAtStep3 worldAtStep3))) = Some True \<and>
   \<not> hasQuestionBeenSent
       (chatMessages (snd (send allOk goodDay screenAtStep3 worldAtStep3))) 4 \<and>
   completions (snd (run [Send allOk goodDay, Mount, Send allOk goodDay, Send allOk goodDay,
      Send allOk goodDay, Send allOk goodDay] (screenAtStep3, worldAtStep3))) = 2"
proof -
  have uid: "s_uid screenAfterStep3"
    by (simp add: screenAfterStep3_def screenAtStep3_def firstRender_def)
  have one: "completions worldAfterStep3 = 1"
    by (simp add: completions_def worldAfterStep3_def)
  have two: "completions (snd (run [Send allOk goodDay, Mount, Send allOk goodDay,
      Send allOk goodDay, Send allOk goodDay, Send allOk goodDay]
      (screenAtStep3, worldAtStep3))) = 2"
    using second_completion_after_mount [OF uid, of worldAfterStep3] one
    by (simp add: send_scenario)
  have "s_onboardingStep screenAtStep3 = Some (TOTAL_ONBOARDING_STEPS - 2)"
    "completions worldAtStep3 = 0" "onboarded (profile worldAfterStep3) = Some True"
    by (simp_all add: screenAtStep3_def TOTAL_5 completions_def worldAtStep3_def freshWorld_def
        worldAfterStep3_def)
  with no_question_4 one two show ?thesis by (simp add: send_scenario)
qed

section \<open>The hand-off happens at most once\<close>

lemma noMeta_plain:
  "\<not> m_onboardingCompleted noMeta"
  "\<not> m_onboardingCompleted (noMeta\<lparr> m_onboardingStep := a \<rparr>)"
  "\<not> m_onboardingCompleted (noMeta\<lparr> m_onboardingStep := a, m_answerRequired := b \<rparr>)"
  "\<not> m_onboardingCompleted (noMeta\<lparr> m_error := c \<rparr>)"
  by (simp_all add: noMeta_def)

lemma tally_sendMessage:
  "\<not> m_onboardingCompleted m \<Longrightarrow> tally (snd (sendMessage ok w r t m)) = tally w"
  by (simp add: tally_def sendMessage_def completionMessages_def isCompletionMessage_def)

lemma tally_sendAura:
  "\<not> m_onboardingCompleted m \<Longrightarrow> tally (snd (sendAura ok w t m)) = tally w"
  by (simp add: sendAura_def tally_sendMessage)



lemma tally_complete:
  "tally (snd (completeOnboarding e w)) =
     (length (planRequests w), length (plans w), completionMessages w,
      completeWriteOk e \<or> onboarded (profile w) = Some True)"
  by (simp add: tally_def completeOnboarding_def completionMessages_def)

lemma tally_sendNext:
  "tally (snd (sendNextOnboardingQuestion e w k ex)) =
     (length (planRequests w), length (plans w), completionMessages w,
      (5 \<le> k \<and> completeWriteOk e) \<or> onboarded (profile w) = Some True)"
  by (simp add: sendNext_unfold tally_complete tally_sendAura noMeta_plain)
     (simp add: tally_def)





lemma atMostOnce_later:
  "atMostOnce (s, w) \<Longrightarrow>
   tally w' = (length (planRequests w), length (plans w), completionMessages w,
               b \<or> onboarded (profile w) = Some True) \<Longrightarrow>
   s_onboarded s' = s_onboarded s \<Longrightarrow> atMostOnce (s', w')"
  by (auto simp: atMostOnce_def tally_def)





lemma onMessages_atMostOnce:
  assumes "atMostOnce (s, w)"
  shows "atMostOnce (onMessages e items s w)"
proof -
  have "onMessages e items s w =
          (s\<lparr> s_messages := items \<rparr>, snd (sendNextOnboardingQuestion e w 0 (Some items)))"
    by (simp add: onMessages_def firstRender_def Let_def)
  with atMostOnce_later [OF assms tally_sendNext [of e w 0 "Some items"]]
  show ?thesis by simp
qed






lemma handOffGuard_read: "handOffGuard False (s, w) = atMostOnce (s, w)"
  by (simp add: handOffGuard_def)





lemma tally_after_step3: "tally worldAfterStep3 = (1, 1, 1, True)"
  by (simp add: tally_def worldAfterStep3_def completionMessages_def isCompletionMessage_def
      logAtStep3_def questionMessage_def answerMessage_def congratulationsMessage_def noMeta_def)







text \<open>
  A profile read that delivers an older document does the same with no mount at all: the
  document of step 3 arrives after the hand-off, and the next message hands off again.
\<close>

lemma send_hands_off_at_step_3:
  assumes "s_uid s" "\<not> s_busy s" "\<not> s_onboarded s" "s_onboardingStep s = Some 3"
    "planText (s_messages s) = Some t"
  shows "tally (snd (send allOk goodDay s w)) =
     (length (planRequests w) + 1, length (plans w) + 1, completionMessages w + 1, True)"
  using assms
  by (simp add: send_def sendTry_def onboardingMode_def handOff_def trim_good goodDay_nonempty
      allOk_def TOTAL_5 Let_def doesCurrentStepRequireAnswer_iff progressOnboardingStep_def
      completeOnboarding_def sendUserMessage_def sendAura_def sendMessage_def
      tally_def completionMessages_def isCompletionMessage_def noMeta_def)

lemma stale_read_hands_off_again:
  "tally (snd (run [Send allOk goodDay, ProfileLoaded (Some (profile worldAtStep3)),
      Send allOk goodDay] (screenAtStep3, worldAtStep3))) = (2, 2, 2, True)"
proof -
  let ?s = "onProfile (Some (profile worldAtStep3)) screenAfterStep3"
  have pre: "s_uid screenAfterStep3" "s_uid ?s" "\<not> s_busy ?s" "\<not> s_onboarded ?s"
    "s_onboardingStep ?s = Some 3" "planText (s_messages ?s) = planText logAtStep3"
    by (simp_all add: onProfile_def screenAfterStep3_def screenAtStep3_def firstRender_def
        worldAtStep3_def freshWorld_def sampleProfile_def stepOrZero_def onboardedOrFalse_def)
  from pre(6) planText_scenario obtain t where "planText (s_messages ?s) = Some t" by simp
  from send_hands_off_at_step_3 [OF pre(2-5) this, of worldAfterStep3] tally_after_step3
  have "tally (snd (send allOk goodDay ?s worldAfterStep3)) = (2, 2, 2, True)"
    by (simp add: tally_def)
  with pre(1) show ?thesis by (simp add: send_scenario)
qed

section \<open>Streaks\<close>

lemma daysDiff_eq: "daysDiff a b = a - b"
proof -
  have "getTime a - getTime b = (a - b) * 86400000" by (simp add: getTime_def algebra_simps)
  then show ?thesis by (simp add: daysDiff_def)
qed

lemma streakLoop_ge: "streak \<le> streakLoop ds k streak"
  by (induction k arbitrary: streak) (auto simp: Suc_leD)

text \<open>The function of lib/firebaseHelpers never gives 0 for a list that is not empty.\<close>

lemma calculateStreak_nonempty:
  "completedDates \<noteq> [] \<Longrightarrow> 1 \<le> calculateStreak completedDates"
  using streakLoop_ge [of 1] by (simp add: calculateStreak_def Let_def)

text \<open>The examples of the specification that do not depend on the clock.\<close>

lemma calculateStreak_examples:
  "calculateStreak [] = 0"
  "calculateStreak [today] = 1"
  "calculateStreak [today, today - 1, today - 2] = 3"
  "calculateStreak [today, today - 3] = 1"
  by (simp_all add: calculateStreak_def daysDiff_eq numeral_2_eq_2)

text \<open>The function of the habit detail screen does what the specification says.\<close>

lemma calculateStreakOfLogs_examples:
  "calculateStreakOfLogs today [] = 0"
  "calculateStreakOfLogs today [today] = 1"
  "calculateStreakOfLogs today [today, today - 1, today - 2] = 3"
  "calculateStreakOfLogs today [today, today - 3] = 1"
  by (simp_all add: calculateStreakOfLogs_def daysDiff_eq)

lemma calculateStreakOfLogs_stale:
  "logDates \<noteq> [] \<Longrightarrow> hd (rev (sort logDates)) \<noteq> today \<Longrightarrow>
   hd (rev (sort logDates)) \<noteq> today - 1 \<Longrightarrow> calculateStreakOfLogs today logDates = 0"
  by (simp add: calculateStreakOfLogs_def)

text \<open>
  Claim C3. The streak of a set of completion dates is 0 when the set is empty or its
  most recent date is neither today nor yesterday. \<^verbatim>\<open>calculateStreak\<close> of
  lib/firebaseHelpers does not read the clock: for the single date 2024-01-01 (day 19723)
  it gives 1 on 2024-01-11 (day 19733) as on any other day, where the function of the same
  name in the habit detail screen gives 0.
\<close>

theorem C3_streak_ignores_today:
  "calculateStreak [19723] = 1 \<and> calculateStreakOfLogs 19733 [19723] = 0"
  by (simp add: calculateStreak_def calculateStreakOfLogs_def)

section \<open>The access gate without an identity\<close>

lemma signedOut_ctx: "\<not> user signedOut \<and> \<not> loading signedOut"
  by (simp add: signedOut_def useAuth_def onUserChange_def onAuthChange_def initialAuth_def)

text \<open>
  The entry \<^verbatim>\<open>'/'\<close> of the list of public routes is matched with \<^verbatim>\<open>startsWith\<close>
  like the others, so every pathname that begins with a slash passes the test of public
  routes, and \<^verbatim>\<open>AuthMiddleware\<close> redirects no such route for a session without
  identity.
\<close>

lemma slash_prefix_is_public: "prefix ''/'' pathname \<Longrightarrow> isPublicRoute pathname"
  by (simp add: isPublicRoute_def matchesRoute_def publicRoutes_def)

lemma signed_out_never_redirected:
  "\<not> user ctx \<Longrightarrow> \<not> loading ctx \<Longrightarrow> prefix ''/'' pathname \<Longrightarrow>
     AuthMiddleware requireAuth requireProfile ctx pathname = Children"
  by (simp add: AuthMiddleware_def slash_prefix_is_public)

text \<open>The guard of the root layout redirects every route but the sign-in and sign-up ones.\<close>

lemma Guard_signed_out:
  "\<not> user ctx \<Longrightarrow> \<not> loading ctx \<Longrightarrow>
     Guard ctx pathname =
       (if prefix ''/(auth)'' pathname \<or> includes_str pathname ''/signin'' \<or>
           includes_str pathname ''/signup''
        then Children else RedirectTo ''/signin'')"
  by (simp add: Guard_def Let_def)

text \<open>
  Claim C5. A session without identity on a route outside sign-in, sign-up and landing is
  to be redirected to sign-in. \<^verbatim>\<open>AuthMiddleware\<close> does not do it: on the chat route
  and on the welcome route it renders its children, where the guard of the root layout
  redirects to \<^verbatim>\<open>/signin\<close>.
\<close>

theorem C5_signed_out_route_not_redirected:
  "\<not> user signedOut \<and> \<not> loading signedOut \<and>
   AuthMiddleware True True signedOut ''/(tabs)/chat'' = Children \<and>
   Guard signedOut ''/(tabs)/chat'' = RedirectTo ''/signin'' \<and>
   AuthMiddleware True True signedOut ''/welcome'' = Children \<and>
   Guard signedOut ''/welcome'' = RedirectTo ''/signin''"
  using signedOut_ctx
  by (simp add: signed_out_never_redirected Guard_signed_out)

section \<open>Deriving the session state\<close>

lemma derive_without_identity:
  "derive seeded profileRecord None =
     \<lparr> authenticated = False, ss_welcomed = True, profileComplete = True,
       ss_onboardingStep = 0, ss_onboarded = False \<rparr>"
  by (simp add: derive_def useAuth_def onAuthChange_def onUserChange_def onUserDocument_def
      initialAuth_def hasUid_def Let_def)

lemma derive_without_profile:
  "uid \<noteq> [] \<Longrightarrow> seeded \<noteq> Some uid \<Longrightarrow>
     derive seeded None (Some uid) =
       \<lparr> authenticated = True, ss_welcomed = False, profileComplete = False,
         ss_onboardingStep = 0, ss_onboarded = False \<rparr>"
  by (simp add: derive_def useAuth_def onAuthChange_def onUserChange_def onUserDocument_def
      initialAuth_def hasUid_def Let_def orNoFields_def noFields_def isProfileComplete_iff
      requiredFields_def stepOrZero_def onboardedOrFalse_def)

text \<open>
  On a repeated sign-in of the uid that the provider has seeded before, the effect returns
  before it attaches the listener: no profile document arrives, \<^verbatim>\<open>loading\<close> stays
  true and the state does not read as authenticated.
\<close>

lemma derive_repeated_sign_in:
  "uid \<noteq> [] \<Longrightarrow>
     derive (Some uid) None (Some uid) =
       \<lparr> authenticated = False, ss_welcomed = True, profileComplete = True,
         ss_onboardingStep = 0, ss_onboarded = False \<rparr>"
  by (simp add: derive_def useAuth_def onAuthChange_def onUserChange_def onUserDocument_def
      initialAuth_def hasUid_def Let_def stepOrZero_def onboardedOrFalse_def)

text \<open>
  Claim C9, as the code has it. Without an identity the derived state is not
  authenticated, with step 0 and not onboarded, and the two flags of the provider are
  reset to false, which reads as welcomed and profile complete (nothing is asked of a
  visitor who is signed out). With an identity (a uid that is not empty) whose listener on
  the profile document is attached, which is the case when the uid is not the one the
  provider has seeded before in the session, and no profile document, the state is
  authenticated, not welcomed, profile not complete, step 0, not onboarded.
\<close>

theorem C9_derive_on_missing_input:
  "derive seeded profileRecord None =
     \<lparr> authenticated = False, ss_welcomed = True, profileComplete = True,
       ss_onboardingStep = 0, ss_onboarded = False \<rparr> \<and>
   (uid \<noteq> [] \<and> seeded' \<noteq> Some uid \<longrightarrow>
      derive seeded' None (Some uid) =
        \<lparr> authenticated = True, ss_welcomed = False, profileComplete = False,
          ss_onboardingStep = 0, ss_onboarded = False \<rparr>)"
  using derive_without_identity derive_without_profile by blast

theorem C9_witness:
  "derive None (Some sampleProfile) None =
     \<lparr> authenticated = False, ss_welcomed = True, profileComplete = True,
       ss_onboardingStep = 0, ss_onboarded = False \<rparr> \<and>
   ''u1'' \<noteq> [] \<and> None \<noteq> Some ''u1'' \<and>
   derive None None (Some ''u1'') =
     \<lparr> authenticated = True, ss_welcomed = False, profileComplete = False,
       ss_onboardingStep = 0, ss_onboarded = False \<rparr>"
  using C9_derive_on_missing_input [where seeded = None and profileRecord = "Some sampleProfile"
      and uid = "''u1''" and seeded' = None]
  by simp

text \<open>
  The claim as it was stated fails without an identity: the derived state says welcomed
  and profile complete there, not the opposite.
\<close>

theorem C9_counterexample:
  "\<not> authenticated (derive None None None) \<and> ss_welcomed (derive None None None) \<and>
   profileComplete (derive None None None)"
  by (simp add: derive_without_identity)

end
